theory Spec2Isabelle
  imports
    Complex_Main
    "HOL-Library.Char_ord"
    "HOL-Library.List_Lexorder"
    "HOL-Library.Option_ord"
    "HOL-Library.Multiset"
begin

section \<open>The entity store (app/models.py)\<close>

text \<open>
  Each mapped class is a record whose fields carry the class name, as in
  \<^verbatim>\<open>models.Contact.phone\<close>. Primary keys and foreign keys are Python integers, nullable
  string columns are \<open>string option\<close> with \<open>None\<close> for SQL NULL.
\<close>

record Contact =
  Contact_id :: int
  Contact_name :: string
  Contact_email :: "string option"
  Contact_phone :: "string option"
  Contact_address :: "string option"

record PhoneNumber =
  PhoneNumber_id :: int
  PhoneNumber_contact_id :: int
  PhoneNumber_number :: string

record Address =
  Address_id :: int
  Address_contact_id :: int
  Address_address :: string

record Tag =
  Tag_id :: int
  Tag_name :: string

text \<open>
  The database: one list of rows per table, in insertion order. The association table
  \<^verbatim>\<open>contact_tag_association\<close> holds pairs (contact id, tag id).
\<close>

record database =
  contacts :: "Contact list"
  phone_numbers :: "PhoneNumber list"
  addresses :: "Address list"
  tags :: "Tag list"
  contact_tag_association :: "(int \<times> int) list"

definition empty_database :: database where
  "empty_database =
     \<lparr>contacts = [], phone_numbers = [], addresses = [], tags = [],
      contact_tag_association = []\<rparr>"

text \<open>
  What an operation can raise: \<^verbatim>\<open>ValueError\<close> with its message (raised by app/crud.py),
  and the \<^verbatim>\<open>IntegrityError\<close> of a violated table constraint (the unique constraints on
  \<^verbatim>\<open>phone_numbers.number\<close>, \<^verbatim>\<open>addresses.address\<close>, \<^verbatim>\<open>tags.name\<close> and the primary key of
  the association table), raised when the session flushes.
\<close>

datatype error = ValueError string | IntegrityError

text \<open>
  \<^verbatim>\<open>database.get_db\<close> closes the session on every exit path, and a session that is closed
  before \<^verbatim>\<open>db.commit()\<close> rolls its transaction back: the committed database after an
  operation is the new one when the operation returned, and the old one when it raised.
\<close>

definition committed :: "database \<Rightarrow> error + ('a \<times> database) \<Rightarrow> database" where
  "committed db r = (case r of Inl e \<Rightarrow> db | Inr (x, db') \<Rightarrow> db')"

text \<open>
  An integer primary key without a value is given the largest key of the table plus one
  (the rowid rule of SQLite, the default \<^verbatim>\<open>DATABASE_URL\<close>), 1 in an empty table.
\<close>

definition next_id :: "int list \<Rightarrow> int" where
  "next_id ids = (if ids = [] then 1 else fold max ids (hd ids) + 1)"

section \<open>The uniqueness validator (app/crud.py)\<close>

text \<open>
  \<^verbatim>\<open>if exclude_contact_id: query = query.filter(... != exclude_contact_id)\<close>: the filter is
  added when the argument is truthy, that is neither \<^verbatim>\<open>None\<close> nor 0.
\<close>

definition exclude_filter :: "int option \<Rightarrow> int \<Rightarrow> bool" where
  "exclude_filter exclude_contact_id i =
     (case exclude_contact_id of
        None \<Rightarrow> True
      | Some e \<Rightarrow> if e = 0 then True else i \<noteq> e)"

definition check_phone_number_exists :: "database \<Rightarrow> string option \<Rightarrow> int option \<Rightarrow> bool" where
  "check_phone_number_exists db phone_number exclude_contact_id =
     (case phone_number of
        None \<Rightarrow> False
      | Some p \<Rightarrow>
          if p = [] then False
          else if find (\<lambda>c. Contact_phone c = Some p
                    \<and> exclude_filter exclude_contact_id (Contact_id c)) (contacts db) \<noteq> None
          then True
          else if find (\<lambda>r. PhoneNumber_number r = p
                    \<and> exclude_filter exclude_contact_id (PhoneNumber_contact_id r))
                  (phone_numbers db) \<noteq> None
          then True
          else False)"

definition check_address_exists :: "database \<Rightarrow> string option \<Rightarrow> int option \<Rightarrow> bool" where
  "check_address_exists db address exclude_contact_id =
     (case address of
        None \<Rightarrow> False
      | Some a \<Rightarrow>
          if a = [] then False
          else if find (\<lambda>c. Contact_address c = Some a
                    \<and> exclude_filter exclude_contact_id (Contact_id c)) (contacts db) \<noteq> None
          then True
          else if find (\<lambda>r. Address_address r = a
                    \<and> exclude_filter exclude_contact_id (Address_contact_id r))
                  (addresses db) \<noteq> None
          then True
          else False)"






section \<open>Request schemas (app/schemas.py)\<close>

text \<open>
  A phone-number or address entry of a request carries one string, so a list of entries
  is a list of strings. An optional field is an \<open>option\<close>; \<open>None\<close> is Python's \<^verbatim>\<open>None\<close>.
\<close>

record ContactCreate =
  ContactCreate_name :: string
  ContactCreate_email :: "string option"
  ContactCreate_phone :: "string option"
  ContactCreate_phone_numbers :: "string list option"
  ContactCreate_addresses :: "string list option"
  ContactCreate_tags :: "string list option"

record ContactUpdate =
  ContactUpdate_name :: "string option"
  ContactUpdate_email :: "string option"
  ContactUpdate_phone :: "string option"
  ContactUpdate_phone_numbers :: "string list option"
  ContactUpdate_addresses :: "string list option"
  ContactUpdate_tags :: "string list option"

text \<open>\<^verbatim>\<open>xs or []\<close>, and \<^verbatim>\<open>if contact.tags:\<close> followed by a loop over them.\<close>

definition or_empty :: "'a list option \<Rightarrow> 'a list" where
  "or_empty xs = (case xs of None \<Rightarrow> [] | Some ys \<Rightarrow> ys)"

section \<open>Strings\<close>

text \<open>
  \<^verbatim>\<open>str.lower()\<close> and SQL \<^verbatim>\<open>lower()\<close>, on the ASCII letters; every other character is
  left as it is.
\<close>

definition lower_char :: "char \<Rightarrow> char" where
  "lower_char c =
     (case map_of (zip ''ABCDEFGHIJKLMNOPQRSTUVWXYZ'' ''abcdefghijklmnopqrstuvwxyz'') c of
        None \<Rightarrow> c
      | Some l \<Rightarrow> l)"

definition lower :: "string \<Rightarrow> string" where
  "lower s = map lower_char s"

text \<open>The messages of the two \<^verbatim>\<open>ValueError\<close>s; the value stands between single quotes.\<close>

definition phone_message :: "string \<Rightarrow> string" where
  "phone_message v =
     ''Phone number '' @ [CHR 0x27] @ v @ [CHR 0x27] @ '' is already assigned to another contact''"

definition address_message :: "string \<Rightarrow> string" where
  "address_message v =
     ''Address '' @ [CHR 0x27] @ v @ [CHR 0x27] @ '' is already assigned to another contact''"

section \<open>Flushing pending rows\<close>

text \<open>
  Pending rows are inserted in the order in which they were added to the session. An
  insert that would repeat a value under a unique constraint raises \<^verbatim>\<open>IntegrityError\<close>.
\<close>

fun insert_phone_numbers :: "int \<Rightarrow> string list \<Rightarrow> PhoneNumber list \<Rightarrow> error + PhoneNumber list" where
  "insert_phone_numbers contact_id [] table = Inr table"
| "insert_phone_numbers contact_id (n # ns) table =
     (if n \<in> PhoneNumber_number ` set table then Inl IntegrityError
      else insert_phone_numbers contact_id ns
        (table @ [\<lparr>PhoneNumber_id = next_id (map PhoneNumber_id table),
                   PhoneNumber_contact_id = contact_id, PhoneNumber_number = n\<rparr>]))"

fun insert_addresses :: "int \<Rightarrow> string list \<Rightarrow> Address list \<Rightarrow> error + Address list" where
  "insert_addresses contact_id [] table = Inr table"
| "insert_addresses contact_id (a # as) table =
     (if a \<in> Address_address ` set table then Inl IntegrityError
      else insert_addresses contact_id as
        (table @ [\<lparr>Address_id = next_id (map Address_id table),
                   Address_contact_id = contact_id, Address_address = a\<rparr>]))"

text \<open>
  The tag loop of create and update:
  \<^verbatim>\<open>db_tag = db.query(models.Tag).filter(models.Tag.name == tag_name.lower()).first()\<close>,
  and a new \<^verbatim>\<open>models.Tag(name=tag_name.lower())\<close> added to the session when there is none.
  The session is made with \<^verbatim>\<open>autoflush=False\<close> (app/database.py), so the query reads the
  table as it is in the database and does not see a tag that is only pending.
\<close>

datatype tag_object = Persistent Tag | Pending string

definition get_or_new_tag :: "Tag list \<Rightarrow> string \<Rightarrow> tag_object" where
  "get_or_new_tag table tag_name =
     (case find (\<lambda>t. Tag_name t = lower tag_name) table of
        Some t \<Rightarrow> Persistent t
      | None \<Rightarrow> Pending (lower tag_name))"

text \<open>
  The flush inserts the pending tags (\<^verbatim>\<open>tags.name\<close> is unique) and gives the ids of the
  tag objects in the order of the contact's \<^verbatim>\<open>tags\<close> collection.
\<close>

fun insert_tags :: "tag_object list \<Rightarrow> Tag list \<Rightarrow> error + (Tag list \<times> int list)" where
  "insert_tags [] table = Inr (table, [])"
| "insert_tags (Persistent t # objs) table =
     (case insert_tags objs table of
        Inl e \<Rightarrow> Inl e
      | Inr (table', ids) \<Rightarrow> Inr (table', Tag_id t # ids))"
| "insert_tags (Pending n # objs) table =
     (if n \<in> Tag_name ` set table then Inl IntegrityError
      else
        (case insert_tags objs
                (table @ [\<lparr>Tag_id = next_id (map Tag_id table), Tag_name = n\<rparr>]) of
           Inl e \<Rightarrow> Inl e
         | Inr (table', ids) \<Rightarrow> Inr (table', next_id (map Tag_id table) # ids)))"

text \<open>
  One association row per tag added to the collection; the pair (contact id, tag id) is
  the primary key of the association table.
\<close>

fun insert_associations :: "int \<Rightarrow> int list \<Rightarrow> (int \<times> int) list \<Rightarrow> error + (int \<times> int) list" where
  "insert_associations contact_id [] table = Inr table"
| "insert_associations contact_id (t # ts) table =
     (if (contact_id, t) \<in> set table then Inl IntegrityError
      else insert_associations contact_id ts (table @ [(contact_id, t)]))"

section \<open>The reconciliation engine (app/crud.py)\<close>

text \<open>
  An operation takes the committed database and gives either the error it raises or its
  result with the database after \<^verbatim>\<open>db.commit()\<close>.
\<close>

definition create_contact :: "database \<Rightarrow> ContactCreate \<Rightarrow> error + (Contact \<times> database)" where
  "create_contact db contact =
     (case (case ContactCreate_phone contact of
              None \<Rightarrow> None
            | Some p \<Rightarrow>
                if p \<noteq> [] \<and> check_phone_number_exists db (Some p) None then Some p else None) of
        Some p \<Rightarrow> Inl (ValueError (phone_message p))
      | None \<Rightarrow>
     (case find (\<lambda>n. check_phone_number_exists db (Some n) None)
             (or_empty (ContactCreate_phone_numbers contact)) of
        Some n \<Rightarrow> Inl (ValueError (phone_message n))
      | None \<Rightarrow>
     (case find (\<lambda>a. check_address_exists db (Some a) None)
             (or_empty (ContactCreate_addresses contact)) of
        Some a \<Rightarrow> Inl (ValueError (address_message a))
      | None \<Rightarrow>
     (let db_contact =
            \<lparr>Contact_id = next_id (map Contact_id (contacts db)),
             Contact_name = ContactCreate_name contact,
             Contact_email = ContactCreate_email contact,
             Contact_phone = ContactCreate_phone contact,
             Contact_address = None\<rparr>;
          db1 = db\<lparr>contacts := contacts db @ [db_contact]\<rparr>;
          tag_objects = map (get_or_new_tag (tags db1)) (or_empty (ContactCreate_tags contact))
      in
     (case insert_phone_numbers (Contact_id db_contact)
             (or_empty (ContactCreate_phone_numbers contact)) (phone_numbers db1) of
        Inl e \<Rightarrow> Inl e
      | Inr phone_table \<Rightarrow>
     (case insert_addresses (Contact_id db_contact)
             (or_empty (ContactCreate_addresses contact)) (addresses db1) of
        Inl e \<Rightarrow> Inl e
      | Inr address_table \<Rightarrow>
     (case insert_tags tag_objects (tags db1) of
        Inl e \<Rightarrow> Inl e
      | Inr (tag_table, tag_ids) \<Rightarrow>
     (case insert_associations (Contact_id db_contact) tag_ids
             (contact_tag_association db1) of
        Inl e \<Rightarrow> Inl e
      | Inr association_table \<Rightarrow>
          Inr (db_contact,
               db1\<lparr>phone_numbers := phone_table, addresses := address_table,
                   tags := tag_table, contact_tag_association := association_table\<rparr>)))))))))"

definition get_contact :: "database \<Rightarrow> int \<Rightarrow> Contact option" where
  "get_contact db contact_id = find (\<lambda>c. Contact_id c = contact_id) (contacts db)"

text \<open>
  \<^verbatim>\<open>update_contact\<close> returns \<^verbatim>\<open>None\<close> for an unknown id. The two bulk deletes run in the
  transaction at once; everything else is written by the flush of \<^verbatim>\<open>db.commit()\<close>. The
  collection \<^verbatim>\<open>db_contact.tags\<close> is cleared and filled again: the flush deletes the
  association rows of the tags that are no longer in it and inserts a row for each tag
  object added that was not in it before.
\<close>

definition update_contact ::
  "database \<Rightarrow> int \<Rightarrow> ContactUpdate \<Rightarrow> error + (Contact option \<times> database)" where
  "update_contact db contact_id contact_update =
     (case get_contact db contact_id of
        None \<Rightarrow> Inr (None, db)
      | Some db_contact0 \<Rightarrow>
     (let db_contact1 =
            (case ContactUpdate_name contact_update of
               None \<Rightarrow> db_contact0
             | Some n \<Rightarrow> db_contact0\<lparr>Contact_name := n\<rparr>);
          db_contact2 =
            (case ContactUpdate_email contact_update of
               None \<Rightarrow> db_contact1
             | Some e \<Rightarrow> db_contact1\<lparr>Contact_email := Some e\<rparr>)
      in
     (case (case ContactUpdate_phone contact_update of
              None \<Rightarrow> None
            | Some p \<Rightarrow>
                if check_phone_number_exists db (Some p) (Some contact_id) then Some p
                else None) of
        Some p \<Rightarrow> Inl (ValueError (phone_message p))
      | None \<Rightarrow>
     (let db_contact3 =
            (case ContactUpdate_phone contact_update of
               None \<Rightarrow> db_contact2
             | Some p \<Rightarrow> db_contact2\<lparr>Contact_phone := Some p\<rparr>)
      in
     (case (case ContactUpdate_phone_numbers contact_update of
              None \<Rightarrow> None
            | Some ns \<Rightarrow>
                find (\<lambda>n. check_phone_number_exists db (Some n) (Some contact_id)) ns) of
        Some n \<Rightarrow> Inl (ValueError (phone_message n))
      | None \<Rightarrow>
     (let db1 =
            (case ContactUpdate_phone_numbers contact_update of
               None \<Rightarrow> db
             | Some ns \<Rightarrow>
                 db\<lparr>phone_numbers :=
                      filter (\<lambda>r. PhoneNumber_contact_id r \<noteq> contact_id) (phone_numbers db)\<rparr>)
      in
     (case (case ContactUpdate_addresses contact_update of
              None \<Rightarrow> None
            | Some as \<Rightarrow>
                find (\<lambda>a. check_address_exists db1 (Some a) (Some contact_id)) as) of
        Some a \<Rightarrow> Inl (ValueError (address_message a))
      | None \<Rightarrow>
     (let db2 =
            (case ContactUpdate_addresses contact_update of
               None \<Rightarrow> db1
             | Some as \<Rightarrow>
                 db1\<lparr>addresses :=
                       filter (\<lambda>r. Address_contact_id r \<noteq> contact_id) (addresses db1)\<rparr>);
          original = map snd (filter (\<lambda>(c, t). c = contact_id) (contact_tag_association db2));
          tag_objects =
            (case ContactUpdate_tags contact_update of
               None \<Rightarrow> []
             | Some ts \<Rightarrow> map (get_or_new_tag (tags db2)) ts)
      in
     (case insert_phone_numbers contact_id
             (or_empty (ContactUpdate_phone_numbers contact_update)) (phone_numbers db2) of
        Inl e \<Rightarrow> Inl e
      | Inr phone_table \<Rightarrow>
     (case insert_addresses contact_id
             (or_empty (ContactUpdate_addresses contact_update)) (addresses db2) of
        Inl e \<Rightarrow> Inl e
      | Inr address_table \<Rightarrow>
     (case insert_tags tag_objects (tags db2) of
        Inl e \<Rightarrow> Inl e
      | Inr (tag_table, tag_ids) \<Rightarrow>
     (case (case ContactUpdate_tags contact_update of
              None \<Rightarrow> Inr (contact_tag_association db2)
            | Some ts \<Rightarrow>
                insert_associations contact_id
                  (filter (\<lambda>t. t \<notin> set original) tag_ids)
                  (filter (\<lambda>(c, t). \<not> (c = contact_id \<and> t \<notin> set tag_ids))
                     (contact_tag_association db2))) of
        Inl e \<Rightarrow> Inl e
      | Inr association_table \<Rightarrow>
          Inr (Some db_contact3,
               db2\<lparr>contacts :=
                      map (\<lambda>c. if Contact_id c = contact_id then db_contact3 else c)
                        (contacts db2),
                    phone_numbers := phone_table, addresses := address_table,
                    tags := tag_table,
                    contact_tag_association := association_table\<rparr>)))))))))))))"

text \<open>
  \<^verbatim>\<open>db.delete(db_contact)\<close>: the relationships \<^verbatim>\<open>phone_numbers\<close> and \<^verbatim>\<open>addresses\<close> cascade
  (\<^verbatim>\<open>cascade="all, delete-orphan"\<close>), and the rows of the contact in the association
  table go with it; the table \<^verbatim>\<open>tags\<close> is not touched.
\<close>

definition delete_contact :: "database \<Rightarrow> int \<Rightarrow> bool \<times> database" where
  "delete_contact db contact_id =
     (case get_contact db contact_id of
        None \<Rightarrow> (False, db)
      | Some db_contact \<Rightarrow>
          (True,
           db\<lparr>contacts := filter (\<lambda>c. Contact_id c \<noteq> contact_id) (contacts db),
              phone_numbers :=
                filter (\<lambda>r. PhoneNumber_contact_id r \<noteq> contact_id) (phone_numbers db),
              addresses :=
                filter (\<lambda>r. Address_contact_id r \<noteq> contact_id) (addresses db),
              contact_tag_association :=
                filter (\<lambda>(c, t). c \<noteq> contact_id) (contact_tag_association db)\<rparr>))"

section \<open>Sequences of operations\<close>

text \<open>
  The three writing operations of the service, each applied to the committed database
  and leaving the committed database behind; an operation that raises leaves it as it
  was. A run starts from the empty database.
\<close>

datatype operation = Create ContactCreate | Update int ContactUpdate | Delete int

fun apply_operation :: "database \<Rightarrow> operation \<Rightarrow> database" where
  "apply_operation db (Create contact) = committed db (create_contact db contact)"
| "apply_operation db (Update contact_id contact_update) =
     committed db (update_contact db contact_id contact_update)"
| "apply_operation db (Delete contact_id) = snd (delete_contact db contact_id)"

definition run :: "operation list \<Rightarrow> database" where
  "run ops = foldl apply_operation empty_database ops"

text \<open>Contact ids, and the contact ids that child rows refer to, are 1 or more.\<close>

definition ids_from_one :: "database \<Rightarrow> bool" where
  "ids_from_one db =
     (list_all (\<lambda>c. 1 \<le> Contact_id c) (contacts db)
      \<and> list_all (\<lambda>r. 1 \<le> PhoneNumber_contact_id r) (phone_numbers db)
      \<and> list_all (\<lambda>r. 1 \<le> Address_contact_id r) (addresses db))"

text \<open>
  Contact \<open>i\<close> holds the phone value \<open>p\<close>: as its scalar phone, or in one of its
  phone-number rows.
\<close>

definition holds_phone :: "database \<Rightarrow> string \<Rightarrow> int \<Rightarrow> bool" where
  "holds_phone db p i =
     (list_ex (\<lambda>c. Contact_id c = i \<and> Contact_phone c = Some p) (contacts db)
      \<or> list_ex (\<lambda>r. PhoneNumber_contact_id r = i \<and> PhoneNumber_number r = p)
            (phone_numbers db))"

text \<open>
  The constraints of the tables that the phone namespace rests on: the primary key of
  \<^verbatim>\<open>contacts\<close>, the unique constraint on \<^verbatim>\<open>phone_numbers.number\<close>, and the foreign key
  of \<^verbatim>\<open>phone_numbers.contact_id\<close>.
\<close>

definition table_constraints :: "database \<Rightarrow> bool" where
  "table_constraints db =
     (distinct (map Contact_id (contacts db))
      \<and> distinct (map PhoneNumber_number (phone_numbers db))
      \<and> list_all (\<lambda>r. PhoneNumber_contact_id r \<in> Contact_id ` set (contacts db))
            (phone_numbers db))"

definition one_holder :: "database \<Rightarrow> bool" where
  "one_holder db =
     (\<forall>p i j. p \<noteq> [] \<longrightarrow> holds_phone db p i \<longrightarrow> holds_phone db p j \<longrightarrow> i = j)"

text \<open>
  How often a phone value occurs in the whole store, counting every scalar phone and
  every phone-number row.
\<close>

definition phone_occurrences :: "database \<Rightarrow> string \<Rightarrow> nat" where
  "phone_occurrences db p =
     length (filter (\<lambda>c. Contact_phone c = Some p) (contacts db))
     + length (filter (\<lambda>r. PhoneNumber_number r = p) (phone_numbers db))"

section \<open>The query composer (app/crud.py, app/main.py)\<close>

text \<open>
  \<^verbatim>\<open>sort_column = getattr(models.Contact, sort_by, models.Contact.name)\<close>. The class body of
  \<^verbatim>\<open>Contact\<close> declares five columns, three relationships and \<^verbatim>\<open>__tablename__\<close>; the names
  that the class inherits from \<^verbatim>\<open>Base\<close> and from \<^verbatim>\<open>object\<close> are not written in the
  repository and are the parameter \<open>inherited\<close>. A name that is none of these is not an
  attribute, and \<^verbatim>\<open>getattr\<close> gives its default.
\<close>

datatype column = Column_id | Column_name | Column_email | Column_phone | Column_address

datatype attribute = Column column | Not_a_column

definition getattr_Contact :: "string list \<Rightarrow> string \<Rightarrow> attribute option" where
  "getattr_Contact inherited sort_by =
     (if sort_by = ''id'' then Some (Column Column_id)
      else if sort_by = ''name'' then Some (Column Column_name)
      else if sort_by = ''email'' then Some (Column Column_email)
      else if sort_by = ''phone'' then Some (Column Column_phone)
      else if sort_by = ''address'' then Some (Column Column_address)
      else if sort_by \<in> set [''phone_numbers'', ''addresses'', ''tags'', ''__tablename__'']
        then Some Not_a_column
      else if sort_by \<in> set inherited then Some Not_a_column
      else None)"

definition sort_column :: "string list \<Rightarrow> string \<Rightarrow> attribute" where
  "sort_column inherited sort_by =
     (case getattr_Contact inherited sort_by of
        None \<Rightarrow> Column Column_name
      | Some a \<Rightarrow> a)"

text \<open>
  \<^verbatim>\<open>ORDER BY\<close> a column: text compares byte by byte, NULL comes before every value,
  and \<^verbatim>\<open>sort_column.desc()\<close> reverses the order. SQL leaves the order of rows with equal
  keys open; the model keeps them in table order (reversed for \<^verbatim>\<open>desc\<close>).
\<close>

definition order_by :: "column \<Rightarrow> string \<Rightarrow> Contact list \<Rightarrow> Contact list" where
  "order_by col sort_order rows =
     (let ascending =
            (case col of
               Column_id \<Rightarrow> sort_key Contact_id rows
             | Column_name \<Rightarrow> sort_key Contact_name rows
             | Column_email \<Rightarrow> sort_key Contact_email rows
             | Column_phone \<Rightarrow> sort_key Contact_phone rows
             | Column_address \<Rightarrow> sort_key Contact_address rows)
      in if sort_order = ''desc'' then rev ascending else ascending)"

text \<open>
  \<^verbatim>\<open>query.offset(skip).limit(limit)\<close>: a negative offset skips nothing and a negative
  limit is no limit.
\<close>

definition offset_limit :: "int \<Rightarrow> int \<Rightarrow> 'a list \<Rightarrow> 'a list" where
  "offset_limit skip limit rows =
     (if limit < 0 then drop (nat skip) rows else take (nat limit) (drop (nat skip) rows))"

text \<open>What ordering by an attribute that is not a column does is left to the ORM.\<close>

datatype query_error = Not_sortable string

definition get_contacts ::
  "string list \<Rightarrow> database \<Rightarrow> int \<Rightarrow> int \<Rightarrow> string \<Rightarrow> string
     \<Rightarrow> query_error + (Contact list \<times> int)" where
  "get_contacts inherited db skip limit sort_by sort_order =
     (case sort_column inherited sort_by of
        Not_a_column \<Rightarrow> Inl (Not_sortable sort_by)
      | Column col \<Rightarrow>
          (let query = order_by col sort_order (contacts db)
           in Inr (offset_limit skip limit query, int (length query))))"

text \<open>
  SQL \<^verbatim>\<open>LIKE\<close>: in the pattern, \<^verbatim>\<open>%\<close> stands for any run of characters and \<^verbatim>\<open>_\<close> for any one
  character. Both sides are lowered before they are compared. The first argument is the
  pattern. A NULL operand makes the comparison unknown, which an \<^verbatim>\<open>OR\<close> under
  \<^verbatim>\<open>WHERE\<close> treats as false.
\<close>

fun like :: "string \<Rightarrow> string \<Rightarrow> bool" where
  "like [] s = (s = [])"
| "like (p # ps) s =
     (if p = CHR ''%'' then
        like ps s \<or> (case s of [] \<Rightarrow> False | c # cs \<Rightarrow> like (p # ps) cs)
      else (case s of [] \<Rightarrow> False | c # cs \<Rightarrow> (p = CHR ''_'' \<or> p = c) \<and> like ps cs))"

definition lower_like :: "string option \<Rightarrow> string \<Rightarrow> bool" where
  "lower_like field search_term =
     (case field of None \<Rightarrow> False | Some s \<Rightarrow> like search_term (lower s))"

text \<open>
  The outer join of a contact with its phone-number rows (one row with NULLs when it
  has none), and the join with its tags through the association table.
\<close>

definition outerjoin_phone_numbers :: "database \<Rightarrow> Contact \<Rightarrow> PhoneNumber option list" where
  "outerjoin_phone_numbers db c =
     (case filter (\<lambda>r. PhoneNumber_contact_id r = Contact_id c) (phone_numbers db) of
        [] \<Rightarrow> [None]
      | rs \<Rightarrow> map Some rs)"

definition join_tags :: "database \<Rightarrow> Contact \<Rightarrow> Tag list" where
  "join_tags db c =
     [t. (ci, ti) \<leftarrow> contact_tag_association db, ci = Contact_id c,
         t \<leftarrow> tags db, Tag_id t = ti]"

text \<open>
  The rows that the joins and the two filters of \<^verbatim>\<open>search_contacts\<close> leave, one per
  matching combination of contact, phone-number row and tag, before \<^verbatim>\<open>DISTINCT\<close>.
\<close>

definition search_filter :: "database \<Rightarrow> string option \<Rightarrow> string option \<Rightarrow> Contact list" where
  "search_filter db query tag =
     (let rows0 = contacts db;
          rows1 =
            (case query of
               None \<Rightarrow> rows0
             | Some q \<Rightarrow>
                 if q = [] then rows0
                 else
                   (let search_term = ''%'' @ lower q @ ''%''
                    in [c. c \<leftarrow> rows0, phone_alias \<leftarrow> outerjoin_phone_numbers db c,
                           lower_like (Some (Contact_name c)) search_term
                           \<or> lower_like (Contact_email c) search_term
                           \<or> lower_like (Contact_phone c) search_term
                           \<or> lower_like (map_option PhoneNumber_number phone_alias)
                                search_term]))
      in
        (case tag of
           None \<Rightarrow> rows1
         | Some t \<Rightarrow>
             if t = [] then rows1
             else [c. c \<leftarrow> rows1, tag_alias \<leftarrow> join_tags db c,
                      lower (Tag_name tag_alias) = lower t]))"

definition search_contacts ::
  "string list \<Rightarrow> database \<Rightarrow> string option \<Rightarrow> string option \<Rightarrow> int \<Rightarrow> int \<Rightarrow> string \<Rightarrow> string
     \<Rightarrow> query_error + (Contact list \<times> int)" where
  "search_contacts inherited db query tag skip limit sort_by sort_order =
     (case sort_column inherited sort_by of
        Not_a_column \<Rightarrow> Inl (Not_sortable sort_by)
      | Column col \<Rightarrow>
          (let db_query = order_by col sort_order (remdups (search_filter db query tag))
           in Inr (offset_limit skip limit db_query, int (length db_query))))"

text \<open>The two listing endpoints of app/main.py, as the functions they are.\<close>

record ContactListResponse =
  ContactListResponse_contacts :: "Contact list"
  ContactListResponse_total :: int
  ContactListResponse_page :: int
  ContactListResponse_page_size :: int
  ContactListResponse_total_pages :: int

definition list_contacts ::
  "string list \<Rightarrow> database \<Rightarrow> int \<Rightarrow> int \<Rightarrow> string \<Rightarrow> string
     \<Rightarrow> query_error + ContactListResponse" where
  "list_contacts inherited db page page_size sort_by sort_order =
     (let skip = (page - 1) * page_size
      in (case get_contacts inherited db skip page_size sort_by sort_order of
            Inl e \<Rightarrow> Inl e
          | Inr (found, total_count) \<Rightarrow>
              Inr \<lparr>ContactListResponse_contacts = found,
                   ContactListResponse_total = total_count,
                   ContactListResponse_page = page,
                   ContactListResponse_page_size = page_size,
                   ContactListResponse_total_pages =
                     (total_count + page_size - 1) div page_size\<rparr>))"

definition main_search_contacts ::
  "string list \<Rightarrow> database \<Rightarrow> string option \<Rightarrow> string option \<Rightarrow> int \<Rightarrow> int \<Rightarrow> string \<Rightarrow> string
     \<Rightarrow> query_error + ContactListResponse" where
  "main_search_contacts inherited db query tag page page_size sort_by sort_order =
     (let skip = (page - 1) * page_size
      in (case search_contacts inherited db query tag skip page_size sort_by sort_order of
            Inl e \<Rightarrow> Inl e
          | Inr (found, total_count) \<Rightarrow>
              Inr \<lparr>ContactListResponse_contacts = found,
                   ContactListResponse_total = total_count,
                   ContactListResponse_page = page,
                   ContactListResponse_page_size = page_size,
                   ContactListResponse_total_pages =
                     (total_count + page_size - 1) div page_size\<rparr>))"

text \<open>
  A small database for concrete instances: contact 1 holds the scalar phone 555 and the
  address row "1 Main St", contact 2 holds the phone-number row 777.
\<close>

definition two_contacts :: database where
  "two_contacts =
     \<lparr>contacts =
        [\<lparr>Contact_id = 1, Contact_name = ''Ann'', Contact_email = None,
          Contact_phone = Some ''555'', Contact_address = None\<rparr>,
         \<lparr>Contact_id = 2, Contact_name = ''Bob'', Contact_email = Some ''bob@x.com'',
          Contact_phone = None, Contact_address = None\<rparr>],
      phone_numbers =
        [\<lparr>PhoneNumber_id = 1, PhoneNumber_contact_id = 2, PhoneNumber_number = ''777''\<rparr>],
      addresses =
        [\<lparr>Address_id = 1, Address_contact_id = 1, Address_address = ''1 Main St''\<rparr>],
      tags = [],
      contact_tag_association = []\<rparr>"

text \<open>The two create requests of the cross-field scenario.\<close>

definition john_doe :: ContactCreate where
  "john_doe =
     \<lparr>ContactCreate_name = ''John Doe'', ContactCreate_email = None,
      ContactCreate_phone = Some ''1234567890'', ContactCreate_phone_numbers = Some [],
      ContactCreate_addresses = Some [], ContactCreate_tags = Some []\<rparr>"

definition jane :: ContactCreate where
  "jane =
     \<lparr>ContactCreate_name = ''Jane'', ContactCreate_email = None,
      ContactCreate_phone = None, ContactCreate_phone_numbers = Some [''1234567890''],
      ContactCreate_addresses = Some [], ContactCreate_tags = Some []\<rparr>"

text \<open>An update that supplies only the scalar phone 555, and renames the contact.\<close>

definition phone_555 :: ContactUpdate where
  "phone_555 =
     \<lparr>ContactUpdate_name = Some ''Robert'', ContactUpdate_email = None,
      ContactUpdate_phone = Some ''555'', ContactUpdate_phone_numbers = None,
      ContactUpdate_addresses = None, ContactUpdate_tags = None\<rparr>"

text \<open>
  Five contacts created one after the other with nothing but a name, as the pagination
  test does.
\<close>

definition named :: "string \<Rightarrow> ContactCreate" where
  "named n =
     \<lparr>ContactCreate_name = n, ContactCreate_email = None, ContactCreate_phone = None,
      ContactCreate_phone_numbers = Some [], ContactCreate_addresses = Some [],
      ContactCreate_tags = Some []\<rparr>"

definition five_contacts :: database where
  "five_contacts =
     foldl (\<lambda>db c. committed db (create_contact db c)) empty_database
       (map named [''Contact 0'', ''Contact 1'', ''Contact 2'', ''Contact 3'', ''Contact 4''])"

text \<open>A list of contacts is ordered on a key, ascending, or descending for \<^verbatim>\<open>desc\<close>.\<close>

definition ordered_on :: "('a \<Rightarrow> 'k::linorder) \<Rightarrow> string \<Rightarrow> 'a list \<Rightarrow> bool" where
  "ordered_on key sort_order rows =
     (if sort_order = ''desc'' then sorted_wrt (\<lambda>a b. key b \<le> key a) rows
      else sorted_wrt (\<lambda>a b. key a \<le> key b) rows)"

definition ordered_by :: "column \<Rightarrow> string \<Rightarrow> Contact list \<Rightarrow> bool" where
  "ordered_by col sort_order rows =
     (case col of
        Column_id \<Rightarrow> ordered_on Contact_id sort_order rows
      | Column_name \<Rightarrow> ordered_on Contact_name sort_order rows
      | Column_email \<Rightarrow> ordered_on Contact_email sort_order rows
      | Column_phone \<Rightarrow> ordered_on Contact_phone sort_order rows
      | Column_address \<Rightarrow> ordered_on Contact_address sort_order rows)"

text \<open>
  The sort field as the specification words it: name or email, and name for every other
  value of sortBy.
\<close>

definition sort_field_spec :: "string \<Rightarrow> column" where
  "sort_field_spec sortBy = (if sortBy = ''email'' then Column_email else Column_name)"

text \<open>A create request with a name and tags only, and an update that supplies tags only.\<close>

definition tagged :: "string \<Rightarrow> string list \<Rightarrow> ContactCreate" where
  "tagged n ts =
     \<lparr>ContactCreate_name = n, ContactCreate_email = None, ContactCreate_phone = None,
      ContactCreate_phone_numbers = Some [], ContactCreate_addresses = Some [],
      ContactCreate_tags = Some ts\<rparr>"

definition retagged :: "string list \<Rightarrow> ContactUpdate" where
  "retagged ts =
     \<lparr>ContactUpdate_name = None, ContactUpdate_email = None, ContactUpdate_phone = None,
      ContactUpdate_phone_numbers = None, ContactUpdate_addresses = None,
      ContactUpdate_tags = Some ts\<rparr>"

text \<open>
  The substring filter as the specification words it: the lowered query occurs, as it
  is written, inside the lowered name, email, scalar phone or an owned phone number.
\<close>

fun contains :: "string \<Rightarrow> string \<Rightarrow> bool" where
  "contains q [] = (q = [])"
| "contains q (c # cs) = (take (length q) (c # cs) = q \<or> contains q cs)"

definition matches_query_spec :: "database \<Rightarrow> string \<Rightarrow> Contact \<Rightarrow> bool" where
  "matches_query_spec db q c =
     (contains (lower q) (lower (Contact_name c))
      \<or> (case Contact_email c of None \<Rightarrow> False | Some e \<Rightarrow> contains (lower q) (lower e))
      \<or> (case Contact_phone c of None \<Rightarrow> False | Some p \<Rightarrow> contains (lower q) (lower p))
      \<or> list_ex (\<lambda>r. PhoneNumber_contact_id r = Contact_id c
                  \<and> contains (lower q) (lower (PhoneNumber_number r))) (phone_numbers db))"

text \<open>
  Which contacts a search is for, stated on the tables and not through the joins: the
  pattern built from the query matches the lowered name, email or scalar phone of the
  contact or the lowered number of one of its phone-number rows, and a tag whose lowered
  name is the lowered tag filter is associated with the contact. An absent or empty
  filter lets every contact through.
\<close>

definition query_matches :: "database \<Rightarrow> string \<Rightarrow> Contact \<Rightarrow> bool" where
  "query_matches db q c =
     (lower_like (Some (Contact_name c)) (''%'' @ lower q @ ''%'')
      \<or> lower_like (Contact_email c) (''%'' @ lower q @ ''%'')
      \<or> lower_like (Contact_phone c) (''%'' @ lower q @ ''%'')
      \<or> list_ex (\<lambda>r. PhoneNumber_contact_id r = Contact_id c
                  \<and> like (''%'' @ lower q @ ''%'') (lower (PhoneNumber_number r)))
            (phone_numbers db))"

definition tag_matches :: "database \<Rightarrow> string \<Rightarrow> Contact \<Rightarrow> bool" where
  "tag_matches db t c =
     list_ex (\<lambda>tg. (Contact_id c, Tag_id tg) \<in> set (contact_tag_association db)
                \<and> lower (Tag_name tg) = lower t) (tags db)"

definition search_matches :: "database \<Rightarrow> string option \<Rightarrow> string option \<Rightarrow> Contact \<Rightarrow> bool" where
  "search_matches db query tag c =
     ((case query of None \<Rightarrow> True | Some q \<Rightarrow> q = [] \<or> query_matches db q c)
      \<and> (case tag of None \<Rightarrow> True | Some t \<Rightarrow> t = [] \<or> tag_matches db t c))"

text \<open>
  An address book for concrete instances: Zed with two phone-number rows, Amy with a
  scalar phone, Bob without a phone; Zed and Amy are tagged friend, Zed and Bob work.
\<close>

definition address_book :: database where
  "address_book =
     \<lparr>contacts =
        [\<lparr>Contact_id = 1, Contact_name = ''Zed'', Contact_email = None,
          Contact_phone = None, Contact_address = None\<rparr>,
         \<lparr>Contact_id = 2, Contact_name = ''Amy'', Contact_email = Some ''amy@x.com'',
          Contact_phone = Some ''5550'', Contact_address = None\<rparr>,
         \<lparr>Contact_id = 3, Contact_name = ''Bob'', Contact_email = None,
          Contact_phone = None, Contact_address = None\<rparr>],
      phone_numbers =
        [\<lparr>PhoneNumber_id = 1, PhoneNumber_contact_id = 1, PhoneNumber_number = ''555-1''\<rparr>,
         \<lparr>PhoneNumber_id = 2, PhoneNumber_contact_id = 1, PhoneNumber_number = ''555-2''\<rparr>],
      addresses = [],
      tags = [\<lparr>Tag_id = 1, Tag_name = ''friend''\<rparr>, \<lparr>Tag_id = 2, Tag_name = ''work''\<rparr>],
      contact_tag_association = [(1, 1), (1, 2), (2, 1), (3, 2)]\<rparr>"

section \<open>Properties of the validator\<close>

text \<open>
  Claim C10. With \<open>excludeContactId = 0\<close> both validators answer as with no exclusion at
  all: the filter is only added for a non-zero id, so the rows of a contact 0 stay in
  both checks.
\<close>

theorem exclude_zero_is_no_exclusion:
  "check_phone_number_exists db candidate (Some 0) = check_phone_number_exists db candidate None
   \<and> check_address_exists db candidate (Some 0) = check_address_exists db candidate None"
proof -
  have zero: "exclude_filter (Some 0) = exclude_filter None"
    by (rule ext) (simp add: exclude_filter_def)
  show ?thesis
    by (simp only: check_phone_number_exists_def check_address_exists_def zero)
qed






section \<open>Delete\<close>

text \<open>
  Claim C9. Deleting an id that no contact has returns False and leaves the database as
  it is. Deleting an existing contact returns True; afterwards no contact has the id,
  the other contact rows are the ones there were, the phone-number rows, address rows
  and tag associations left are exactly those of the other contacts, and the table of
  tags is unchanged.
\<close>

theorem delete_contact_cascades:
  "(get_contact db contact_id = None \<longrightarrow> delete_contact db contact_id = (False, db))
   \<and> (get_contact db contact_id \<noteq> None \<longrightarrow>
        fst (delete_contact db contact_id) = True
        \<and> get_contact (snd (delete_contact db contact_id)) contact_id = None
        \<and> contacts (snd (delete_contact db contact_id)) =
            filter (\<lambda>c. Contact_id c \<noteq> contact_id) (contacts db)
        \<and> phone_numbers (snd (delete_contact db contact_id)) =
            filter (\<lambda>r. PhoneNumber_contact_id r \<noteq> contact_id) (phone_numbers db)
        \<and> addresses (snd (delete_contact db contact_id)) =
            filter (\<lambda>r. Address_contact_id r \<noteq> contact_id) (addresses db)
        \<and> contact_tag_association (snd (delete_contact db contact_id)) =
            filter (\<lambda>(c, t). c \<noteq> contact_id) (contact_tag_association db)
        \<and> tags (snd (delete_contact db contact_id)) = tags db)"
proof (cases "get_contact db contact_id")
  case None
  then show ?thesis by (simp add: delete_contact_def)
next
  case (Some c)
  have "find (\<lambda>c. Contact_id c = contact_id)
          (filter (\<lambda>c. Contact_id c \<noteq> contact_id) (contacts db)) = None"
    by (simp add: find_None_iff)
  with Some show ?thesis
    by (simp add: delete_contact_def) (simp add: get_contact_def)
qed

theorem delete_contact_cascades_witness:
  "get_contact two_contacts 7 = None
   \<and> delete_contact two_contacts 7 = (False, two_contacts)
   \<and> get_contact two_contacts 1 \<noteq> None
   \<and> fst (delete_contact two_contacts 1) = True
   \<and> map Contact_id (contacts (snd (delete_contact two_contacts 1))) = [2]
   \<and> addresses (snd (delete_contact two_contacts 1)) = []
   \<and> phone_numbers (snd (delete_contact two_contacts 1)) = phone_numbers two_contacts
   \<and> tags (snd (delete_contact two_contacts 1)) = tags two_contacts"
proof -
  have a: "get_contact two_contacts 7 = None"
    by (simp add: get_contact_def two_contacts_def)
  have b: "get_contact two_contacts 1 \<noteq> None"
    by (simp add: get_contact_def two_contacts_def)
  from a delete_contact_cascades [of two_contacts 7]
  have c: "delete_contact two_contacts 7 = (False, two_contacts)" by simp
  from b delete_contact_cascades [of two_contacts 1]
  have d: "fst (delete_contact two_contacts 1) = True
    \<and> contacts (snd (delete_contact two_contacts 1)) =
            filter (\<lambda>c. Contact_id c \<noteq> 1) (contacts two_contacts)
    \<and> phone_numbers (snd (delete_contact two_contacts 1)) =
            filter (\<lambda>r. PhoneNumber_contact_id r \<noteq> 1) (phone_numbers two_contacts)
    \<and> addresses (snd (delete_contact two_contacts 1)) =
            filter (\<lambda>r. Address_contact_id r \<noteq> 1) (addresses two_contacts)
    \<and> tags (snd (delete_contact two_contacts 1)) = tags two_contacts" by simp
  from a b c d show ?thesis
    by (simp add: two_contacts_def)
qed

section \<open>Create\<close>

lemma find_Some_holds: "find P xs = Some x \<Longrightarrow> P x \<and> x \<in> set xs"
  by (auto simp: find_Some_iff)

lemma find_exists_Some: "x \<in> set xs \<Longrightarrow> P x \<Longrightarrow> \<exists>y. find P xs = Some y"
  by (cases "find P xs") (auto simp: find_None_iff)

text \<open>
  Claim C3. When the validator reports the scalar phone, a listed phone number or a
  listed address of a create request as already held in the database, create raises the
  ValueError whose message quotes one of the reported values, and the committed database
  is the one before the call: no contact row, child row or tag is written. The scenario
  of the claim is the instance proved after the theorem: after John Doe with the scalar
  phone 1234567890, creating Jane with that number in her list raises, and the database
  still holds one contact.
\<close>

theorem create_conflict_commits_nothing:
  assumes "(\<exists>p. ContactCreate_phone contact = Some p \<and> check_phone_number_exists db (Some p) None)
    \<or> (\<exists>n. n \<in> set (or_empty (ContactCreate_phone_numbers contact))
          \<and> check_phone_number_exists db (Some n) None)
    \<or> (\<exists>a. a \<in> set (or_empty (ContactCreate_addresses contact))
          \<and> check_address_exists db (Some a) None)"
  shows "((\<exists>v. create_contact db contact = Inl (ValueError (phone_message v))
            \<and> check_phone_number_exists db (Some v) None
            \<and> (ContactCreate_phone contact = Some v
                \<or> v \<in> set (or_empty (ContactCreate_phone_numbers contact))))
          \<or> (\<exists>v. create_contact db contact = Inl (ValueError (address_message v))
            \<and> check_address_exists db (Some v) None
            \<and> v \<in> set (or_empty (ContactCreate_addresses contact))))
         \<and> committed db (create_contact db contact) = db"
proof -
  let ?scalar = "(case ContactCreate_phone contact of
              None \<Rightarrow> None
            | Some p \<Rightarrow>
                if p \<noteq> [] \<and> check_phone_number_exists db (Some p) None then Some p else None)"
  let ?numbers = "find (\<lambda>n. check_phone_number_exists db (Some n) None)
             (or_empty (ContactCreate_phone_numbers contact))"
  let ?addrs = "find (\<lambda>a. check_address_exists db (Some a) None)
             (or_empty (ContactCreate_addresses contact))"
  have nonempty: "check_phone_number_exists db (Some p) None \<Longrightarrow> p \<noteq> []" for p
    by (auto simp: check_phone_number_exists_def)
  have raised: "(\<exists>v. create_contact db contact = Inl (ValueError (phone_message v))
            \<and> check_phone_number_exists db (Some v) None
            \<and> (ContactCreate_phone contact = Some v
                \<or> v \<in> set (or_empty (ContactCreate_phone_numbers contact))))
          \<or> (\<exists>v. create_contact db contact = Inl (ValueError (address_message v))
            \<and> check_address_exists db (Some v) None
            \<and> v \<in> set (or_empty (ContactCreate_addresses contact)))"
  proof (cases ?scalar)
    case (Some p)
    then have "ContactCreate_phone contact = Some p \<and> check_phone_number_exists db (Some p) None"
      by (auto split: option.splits if_splits)
    moreover from Some have "create_contact db contact = Inl (ValueError (phone_message p))"
      by (simp add: create_contact_def)
    ultimately show ?thesis by blast
  next
    case scalar: None
    show ?thesis
    proof (cases ?numbers)
      case (Some n)
      then have "check_phone_number_exists db (Some n) None
          \<and> n \<in> set (or_empty (ContactCreate_phone_numbers contact))"
        by (auto dest: find_Some_holds)
      moreover from scalar Some
      have "create_contact db contact = Inl (ValueError (phone_message n))"
        by (simp add: create_contact_def)
      ultimately show ?thesis by blast
    next
      case numbers: None
      from scalar have no_scalar:
        "\<not> (\<exists>p. ContactCreate_phone contact = Some p \<and> check_phone_number_exists db (Some p) None)"
        by (auto split: option.splits if_splits dest: nonempty)
      from numbers have no_number:
        "\<not> (\<exists>n. n \<in> set (or_empty (ContactCreate_phone_numbers contact))
          \<and> check_phone_number_exists db (Some n) None)"
        by (auto simp: find_None_iff)
      from assms no_scalar no_number obtain a where
        "a \<in> set (or_empty (ContactCreate_addresses contact))"
        "check_address_exists db (Some a) None"
        by blast
      then obtain b where b: "?addrs = Some b"
        using find_exists_Some [of a _ "\<lambda>a. check_address_exists db (Some a) None"] by blast
      then have "check_address_exists db (Some b) None
          \<and> b \<in> set (or_empty (ContactCreate_addresses contact))"
        by (auto dest: find_Some_holds)
      moreover from scalar numbers b
      have "create_contact db contact = Inl (ValueError (address_message b))"
        by (simp add: create_contact_def)
      ultimately show ?thesis by blast
    qed
  qed
  then have "committed db (create_contact db contact) = db"
    by (auto simp: committed_def)
  with raised show ?thesis by blast
qed


lemma after_john_doe:
  "committed empty_database (create_contact empty_database john_doe) =
     \<lparr>contacts =
        [\<lparr>Contact_id = 1, Contact_name = ''John Doe'', Contact_email = None,
          Contact_phone = Some ''1234567890'', Contact_address = None\<rparr>],
      phone_numbers = [], addresses = [], tags = [], contact_tag_association = []\<rparr>"
  by (simp add: committed_def create_contact_def john_doe_def empty_database_def
      check_phone_number_exists_def or_empty_def next_id_def Let_def)

theorem create_conflict_commits_nothing_witness:
  "check_phone_number_exists (committed empty_database (create_contact empty_database john_doe))
     (Some ''1234567890'') None
   \<and> create_contact (committed empty_database (create_contact empty_database john_doe)) jane
       = Inl (ValueError (phone_message ''1234567890''))
   \<and> committed (committed empty_database (create_contact empty_database john_doe))
         (create_contact (committed empty_database (create_contact empty_database john_doe)) jane)
       = committed empty_database (create_contact empty_database john_doe)
   \<and> length (contacts (committed empty_database (create_contact empty_database john_doe))) = 1"
proof -
  let ?db = "committed empty_database (create_contact empty_database john_doe)"
  have held: "check_phone_number_exists ?db (Some ''1234567890'') None"
    by (simp add: after_john_doe check_phone_number_exists_def exclude_filter_def)
  have listed: "''1234567890'' \<in> set (or_empty (ContactCreate_phone_numbers jane))"
    by (simp add: jane_def or_empty_def)
  from held listed have
    "committed ?db (create_contact ?db jane) = ?db"
    using create_conflict_commits_nothing [of jane ?db] by blast
  moreover have "create_contact ?db jane = Inl (ValueError (phone_message ''1234567890''))"
    using held by (simp add: create_contact_def jane_def or_empty_def)
  moreover have "length (contacts ?db) = 1"
    by (simp add: after_john_doe)
  ultimately show ?thesis using held by simp
qed

section \<open>Update\<close>

lemma check_address_exists_phone_numbers [simp]:
  "check_address_exists (db\<lparr>phone_numbers := rows\<rparr>) a e = check_address_exists db a e"
  by (cases a) (simp_all add: check_address_exists_def)

text \<open>
  Claim C2. For an existing contact, when the validator (excluding the contact itself)
  reports the supplied scalar phone, a supplied phone number or a supplied address as
  held elsewhere, update raises the ValueError of a conflict and the committed database
  is the one before the call; the contact read back is the prior one, and so are its
  rows and tag associations.
\<close>

theorem update_conflict_changes_nothing:
  assumes "get_contact db contact_id = Some c"
    and "(\<exists>p. ContactUpdate_phone u = Some p
            \<and> check_phone_number_exists db (Some p) (Some contact_id))
      \<or> (\<exists>ns n. ContactUpdate_phone_numbers u = Some ns \<and> n \<in> set ns
            \<and> check_phone_number_exists db (Some n) (Some contact_id))
      \<or> (\<exists>as a. ContactUpdate_addresses u = Some as \<and> a \<in> set as
            \<and> check_address_exists db (Some a) (Some contact_id))"
  shows "(\<exists>v. update_contact db contact_id u = Inl (ValueError (phone_message v))
            \<or> update_contact db contact_id u = Inl (ValueError (address_message v)))
         \<and> committed db (update_contact db contact_id u) = db
         \<and> get_contact (committed db (update_contact db contact_id u)) contact_id = Some c"
proof -
  let ?scalar = "(case ContactUpdate_phone u of
              None \<Rightarrow> None
            | Some p \<Rightarrow>
                if check_phone_number_exists db (Some p) (Some contact_id) then Some p
                else None)"
  let ?numbers = "(case ContactUpdate_phone_numbers u of
              None \<Rightarrow> None
            | Some ns \<Rightarrow>
                find (\<lambda>n. check_phone_number_exists db (Some n) (Some contact_id)) ns)"
  let ?addrs = "(case ContactUpdate_addresses u of
              None \<Rightarrow> None
            | Some as \<Rightarrow>
                find (\<lambda>a. check_address_exists db (Some a) (Some contact_id)) as)"
  have raised: "\<exists>v. update_contact db contact_id u = Inl (ValueError (phone_message v))
            \<or> update_contact db contact_id u = Inl (ValueError (address_message v))"
  proof (cases ?scalar)
    case (Some p)
    with assms(1) have "update_contact db contact_id u = Inl (ValueError (phone_message p))"
      by (simp add: update_contact_def Let_def)
    then show ?thesis by blast
  next
    case scalar: None
    show ?thesis
    proof (cases ?numbers)
      case (Some n)
      with assms(1) scalar
      have "update_contact db contact_id u = Inl (ValueError (phone_message n))"
        by (simp add: update_contact_def Let_def)
      then show ?thesis by blast
    next
      case numbers: None
      from scalar have no_scalar:
        "\<not> (\<exists>p. ContactUpdate_phone u = Some p
            \<and> check_phone_number_exists db (Some p) (Some contact_id))"
        by (auto split: option.splits if_splits)
      from numbers have no_number:
        "\<not> (\<exists>ns n. ContactUpdate_phone_numbers u = Some ns \<and> n \<in> set ns
            \<and> check_phone_number_exists db (Some n) (Some contact_id))"
        by (auto simp: find_None_iff)
      from assms(2) no_scalar no_number obtain as a where a:
        "ContactUpdate_addresses u = Some as" "a \<in> set as"
        "check_address_exists db (Some a) (Some contact_id)"
        by blast
      then obtain b where b: "?addrs = Some b"
        by (cases "find (\<lambda>a. check_address_exists db (Some a) (Some contact_id)) as")
          (auto simp: find_None_iff)
      have "update_contact db contact_id u = Inl (ValueError (address_message b))"
      proof (cases "ContactUpdate_phone_numbers u")
        case None
        with assms(1) scalar numbers b a(1) show ?thesis
          by (simp add: update_contact_def Let_def)
      next
        case (Some ns)
        with assms(1) scalar numbers b a(1) show ?thesis
          by (simp add: update_contact_def Let_def)
      qed
      then show ?thesis by blast
    qed
  qed
  then have "committed db (update_contact db contact_id u) = db"
    by (auto simp: committed_def)
  with raised assms(1) show ?thesis by simp
qed

theorem update_conflict_changes_nothing_witness:
  "get_contact two_contacts 2 =
     Some \<lparr>Contact_id = 2, Contact_name = ''Bob'', Contact_email = Some ''bob@x.com'',
           Contact_phone = None, Contact_address = None\<rparr>
   \<and> check_phone_number_exists two_contacts (Some ''555'') (Some 2)
   \<and> update_contact two_contacts 2 phone_555 = Inl (ValueError (phone_message ''555''))
   \<and> committed two_contacts (update_contact two_contacts 2 phone_555) = two_contacts
   \<and> get_contact (committed two_contacts (update_contact two_contacts 2 phone_555)) 2 =
     Some \<lparr>Contact_id = 2, Contact_name = ''Bob'', Contact_email = Some ''bob@x.com'',
           Contact_phone = None, Contact_address = None\<rparr>"
proof -
  have found: "get_contact two_contacts 2 =
     Some \<lparr>Contact_id = 2, Contact_name = ''Bob'', Contact_email = Some ''bob@x.com'',
           Contact_phone = None, Contact_address = None\<rparr>"
    by (simp add: get_contact_def two_contacts_def)
  have held: "check_phone_number_exists two_contacts (Some ''555'') (Some 2)"
    by (simp add: check_phone_number_exists_def exclude_filter_def two_contacts_def)
  have supplied: "ContactUpdate_phone phone_555 = Some ''555''"
    by (simp add: phone_555_def)
  have raised: "update_contact two_contacts 2 phone_555 = Inl (ValueError (phone_message ''555''))"
    using found held by (simp add: update_contact_def phone_555_def Let_def)
  from found held supplied update_conflict_changes_nothing [of two_contacts 2 _ phone_555]
  have "committed two_contacts (update_contact two_contacts 2 phone_555) = two_contacts
    \<and> get_contact (committed two_contacts (update_contact two_contacts 2 phone_555)) 2 =
     Some \<lparr>Contact_id = 2, Contact_name = ''Bob'', Contact_email = Some ''bob@x.com'',
           Contact_phone = None, Contact_address = None\<rparr>"
    by blast
  with found held raised show ?thesis by simp
qed

section \<open>Listing and searching\<close>

lemma length_order_by [simp]: "length (order_by col sort_order rows) = length rows"
  by (cases col) (simp_all add: order_by_def Let_def)

lemma total_pages_ceiling:
  assumes "1 \<le> (p::int)" and "0 \<le> t"
  shows "(t + p - 1) div p = \<lceil>real_of_int t / real_of_int p\<rceil>"
proof -
  define n where "n = (t + p - 1) div p"
  have e: "t + p - 1 = p * n + (t + p - 1) mod p"
    by (simp add: n_def)
  have m: "0 \<le> (t + p - 1) mod p" "(t + p - 1) mod p < p"
    using assms by simp_all
  have upper: "t \<le> n * p"
    using e m by (simp add: mult.commute) 
  have "(n - 1) * p = n * p - p"
    by (simp add: algebra_simps)
  with e m have lower: "(n - 1) * p < t"
    by (simp add: mult.commute)
  have pos: "0 < real_of_int p"
    using assms by simp
  from upper have "real_of_int t \<le> real_of_int n * real_of_int p"
    by (metis of_int_le_iff of_int_mult)
  with pos have a: "real_of_int t / real_of_int p \<le> real_of_int n"
    by (simp add: pos_divide_le_eq)
  from lower have "real_of_int (n - 1) * real_of_int p < real_of_int t"
    by (metis of_int_less_iff of_int_mult)
  with pos have b: "real_of_int n - 1 < real_of_int t / real_of_int p"
    by (simp add: pos_less_divide_eq)
  have "\<lceil>real_of_int t / real_of_int p\<rceil> = n"
    by (rule ceiling_unique [OF b a])
  then show ?thesis by (simp add: n_def)
qed


lemma offset_limit_page:
  assumes "1 \<le> page" and "1 \<le> page_size"
  shows "offset_limit ((page - 1) * page_size) page_size rows =
         take (nat page_size) (drop (nat ((page - 1) * page_size)) rows)"
  using assms by (simp add: offset_limit_def)

lemma five_contacts_rows:
  "five_contacts =
     \<lparr>contacts =
        [\<lparr>Contact_id = 1, Contact_name = ''Contact 0'', Contact_email = None,
          Contact_phone = None, Contact_address = None\<rparr>,
         \<lparr>Contact_id = 2, Contact_name = ''Contact 1'', Contact_email = None,
          Contact_phone = None, Contact_address = None\<rparr>,
         \<lparr>Contact_id = 3, Contact_name = ''Contact 2'', Contact_email = None,
          Contact_phone = None, Contact_address = None\<rparr>,
         \<lparr>Contact_id = 4, Contact_name = ''Contact 3'', Contact_email = None,
          Contact_phone = None, Contact_address = None\<rparr>,
         \<lparr>Contact_id = 5, Contact_name = ''Contact 4'', Contact_email = None,
          Contact_phone = None, Contact_address = None\<rparr>],
      phone_numbers = [], addresses = [], tags = [], contact_tag_association = []\<rparr>"
  by (simp add: five_contacts_def named_def committed_def create_contact_def empty_database_def
      or_empty_def next_id_def Let_def)

lemma five_contacts_by_name:
  "order_by Column_name ''asc'' (contacts five_contacts) = contacts five_contacts"
  by (simp add: five_contacts_rows order_by_def)


section \<open>Ordering\<close>

lemma ordered_on_sort_key:
  "ordered_on key ''desc'' (rev (sort_key key rows))"
  "sort_order \<noteq> ''desc'' \<Longrightarrow> ordered_on key sort_order (sort_key key rows)"
proof -
  have "sorted_wrt (\<lambda>a b. key a \<le> key b) (sort_key key rows)"
    using sorted_sort_key [of key rows] by (simp add: sorted_map)
  then show "ordered_on key ''desc'' (rev (sort_key key rows))"
    and "sort_order \<noteq> ''desc'' \<Longrightarrow> ordered_on key sort_order (sort_key key rows)"
    by (simp_all add: ordered_on_def sorted_wrt_rev)
qed

lemma ordered_on_offset_limit:
  "ordered_on key sort_order rows \<Longrightarrow> ordered_on key sort_order (offset_limit skip limit rows)"
  by (simp add: ordered_on_def offset_limit_def sorted_wrt_take sorted_wrt_drop)

lemma ordered_by_order_by: "ordered_by col sort_order (order_by col sort_order rows)"
  by (cases col) (simp_all add: ordered_by_def order_by_def Let_def ordered_on_sort_key)

lemma ordered_by_offset_limit:
  "ordered_by col sort_order rows \<Longrightarrow> ordered_by col sort_order (offset_limit skip limit rows)"
  by (cases col) (simp_all add: ordered_by_def ordered_on_offset_limit)

text \<open>
  Claim C7, as stated, fails for sortBy = phone: the contacts come back ordered by their
  phone column, Bob (no phone) before Ann, which is not the order of their names.
\<close>

theorem sort_by_phone_counterexample:
  "get_contacts [] two_contacts 0 10 ''phone'' ''asc'' =
     Inr ([\<lparr>Contact_id = 2, Contact_name = ''Bob'', Contact_email = Some ''bob@x.com'',
            Contact_phone = None, Contact_address = None\<rparr>,
           \<lparr>Contact_id = 1, Contact_name = ''Ann'', Contact_email = None,
            Contact_phone = Some ''555'', Contact_address = None\<rparr>], 2)
   \<and> \<not> ordered_by (sort_field_spec ''phone'') ''asc''
         [\<lparr>Contact_id = 2, Contact_name = ''Bob'', Contact_email = Some ''bob@x.com'',
            Contact_phone = None, Contact_address = None\<rparr>,
          \<lparr>Contact_id = 1, Contact_name = ''Ann'', Contact_email = None,
            Contact_phone = Some ''555'', Contact_address = None\<rparr>]"
  by (simp add: get_contacts_def sort_column_def getattr_Contact_def order_by_def
      offset_limit_def two_contacts_def sort_field_spec_def ordered_by_def ordered_on_def)

text \<open>
  Claim C7, amended. When sortBy resolves to a column, the contacts that list and search
  return are ordered on that column, ascending, or descending when sortOrder is desc.
  The names id, name, email, phone and address resolve to their own columns, and a
  sortBy that names no attribute of Contact resolves to name.
\<close>

theorem results_ordered_by_sort_column:
  "(sort_column inherited sort_by = Column col \<longrightarrow>
      (\<exists>rows total. get_contacts inherited db skip limit sort_by sort_order = Inr (rows, total)
          \<and> ordered_by col sort_order rows)
      \<and> (\<exists>rows total.
            search_contacts inherited db query tag skip limit sort_by sort_order = Inr (rows, total)
          \<and> ordered_by col sort_order rows))
   \<and> sort_column inherited ''id'' = Column Column_id
   \<and> sort_column inherited ''name'' = Column Column_name
   \<and> sort_column inherited ''email'' = Column Column_email
   \<and> sort_column inherited ''phone'' = Column Column_phone
   \<and> sort_column inherited ''address'' = Column Column_address
   \<and> (getattr_Contact inherited sort_by = None \<longrightarrow>
        sort_column inherited sort_by = Column Column_name)"
proof -
  have "ordered_by col sort_order (offset_limit skip limit (order_by col sort_order rows))" for rows
    by (rule ordered_by_offset_limit) (rule ordered_by_order_by)
  then show ?thesis
    by (simp add: get_contacts_def search_contacts_def Let_def sort_column_def
        getattr_Contact_def)
qed

theorem results_ordered_by_sort_column_witness:
  "getattr_Contact [''metadata''] ''created_at'' = None
   \<and> sort_column [''metadata''] ''created_at'' = Column Column_name
   \<and> get_contacts [''metadata''] two_contacts 0 10 ''created_at'' ''desc'' =
     Inr ([\<lparr>Contact_id = 2, Contact_name = ''Bob'', Contact_email = Some ''bob@x.com'',
            Contact_phone = None, Contact_address = None\<rparr>,
           \<lparr>Contact_id = 1, Contact_name = ''Ann'', Contact_email = None,
            Contact_phone = Some ''555'', Contact_address = None\<rparr>], 2)
   \<and> ordered_by Column_name ''desc''
        [\<lparr>Contact_id = 2, Contact_name = ''Bob'', Contact_email = Some ''bob@x.com'',
            Contact_phone = None, Contact_address = None\<rparr>,
         \<lparr>Contact_id = 1, Contact_name = ''Ann'', Contact_email = None,
            Contact_phone = Some ''555'', Contact_address = None\<rparr>]"
proof -
  have none: "getattr_Contact [''metadata''] ''created_at'' = None"
    by (simp add: getattr_Contact_def)
  with results_ordered_by_sort_column [of "[''metadata'']" "''created_at''"]
  have col: "sort_column [''metadata''] ''created_at'' = Column Column_name"
    by blast
  have rows: "get_contacts [''metadata''] two_contacts 0 10 ''created_at'' ''desc'' =
     Inr ([\<lparr>Contact_id = 2, Contact_name = ''Bob'', Contact_email = Some ''bob@x.com'',
            Contact_phone = None, Contact_address = None\<rparr>,
           \<lparr>Contact_id = 1, Contact_name = ''Ann'', Contact_email = None,
            Contact_phone = Some ''555'', Contact_address = None\<rparr>], 2)"
    by (simp add: get_contacts_def col order_by_def offset_limit_def two_contacts_def)
  from col results_ordered_by_sort_column
    [of "[''metadata'']" "''created_at''" Column_name two_contacts 0 10 "''desc''"]
  obtain found total where
    "get_contacts [''metadata''] two_contacts 0 10 ''created_at'' ''desc'' = Inr (found, total)"
    "ordered_by Column_name ''desc'' found"
    by blast
  with rows none col show ?thesis by simp
qed

section \<open>Tags\<close>

lemmas create_eval =
  create_contact_def committed_def empty_database_def tagged_def or_empty_def next_id_def
  get_or_new_tag_def lower_def lower_char_def Let_def check_phone_number_exists_def
  check_address_exists_def

lemma after_friend:
  "committed empty_database (create_contact empty_database (tagged ''A'' [''Friend''])) =
     \<lparr>contacts =
        [\<lparr>Contact_id = 1, Contact_name = ''A'', Contact_email = None,
          Contact_phone = None, Contact_address = None\<rparr>],
      phone_numbers = [], addresses = [],
      tags = [\<lparr>Tag_id = 1, Tag_name = ''friend''\<rparr>],
      contact_tag_association = [(1, 1)]\<rparr>"
  by (simp add: create_eval)

text \<open>
  Claim C8 at concrete inputs. Two successive creates with the tags Friend and friend
  leave one tag row, friend, attached to both contacts. One create, or one update, whose
  tag list holds both variants raises IntegrityError: the second lookup does not see the
  tag that the first iteration only added to the session, a second row with the same
  name is inserted, and the unique constraint on the name rejects it. When the tag row
  exists already, the same tag object is appended twice and the second association row
  repeats the primary key.
\<close>

theorem case_variants_of_a_tag:
  "tags (committed
          (committed empty_database (create_contact empty_database (tagged ''A'' [''Friend''])))
          (create_contact
             (committed empty_database (create_contact empty_database (tagged ''A'' [''Friend''])))
             (tagged ''B'' [''friend''])))
     = [\<lparr>Tag_id = 1, Tag_name = ''friend''\<rparr>]
   \<and> contact_tag_association (committed
          (committed empty_database (create_contact empty_database (tagged ''A'' [''Friend''])))
          (create_contact
             (committed empty_database (create_contact empty_database (tagged ''A'' [''Friend''])))
             (tagged ''B'' [''friend''])))
     = [(1, 1), (2, 1)]
   \<and> create_contact empty_database (tagged ''A'' [''Friend'', ''friend'']) = Inl IntegrityError
   \<and> create_contact
        (committed empty_database (create_contact empty_database (tagged ''A'' [''Friend''])))
        (tagged ''B'' [''Friend'', ''friend'']) = Inl IntegrityError
   \<and> update_contact
        (committed empty_database (create_contact empty_database (tagged ''A'' [''Friend''])))
        1 (retagged [''Work'', ''work'']) = Inl IntegrityError"
proof -
  have "create_contact empty_database (tagged ''A'' [''Friend'', ''friend'']) = Inl IntegrityError"
    by (simp add: create_eval)
  moreover have "update_contact
        \<lparr>contacts =
        [\<lparr>Contact_id = 1, Contact_name = ''A'', Contact_email = None,
          Contact_phone = None, Contact_address = None\<rparr>],
      phone_numbers = [], addresses = [],
      tags = [\<lparr>Tag_id = 1, Tag_name = ''friend''\<rparr>],
      contact_tag_association = [(1, 1)]\<rparr>
        1 (retagged [''Work'', ''work'']) = Inl IntegrityError"
    by (simp add: update_contact_def get_contact_def retagged_def create_eval)
  ultimately show ?thesis
    unfolding after_friend by (simp add: create_eval)
qed

section \<open>Search\<close>

text \<open>
  Claim C5 at a concrete input. The query a_n finds Ann, whose name, lowered, matches the
  pattern %a_n% because the underscore of the query stands for any character; neither
  her name nor any other of her fields contains the three characters a_n.
\<close>

theorem search_underscore_is_a_wildcard:
  "search_contacts [] two_contacts (Some ''a_n'') None 0 10 ''name'' ''asc'' =
     Inr ([\<lparr>Contact_id = 1, Contact_name = ''Ann'', Contact_email = None,
            Contact_phone = Some ''555'', Contact_address = None\<rparr>], 1)
   \<and> \<not> matches_query_spec two_contacts ''a_n''
         \<lparr>Contact_id = 1, Contact_name = ''Ann'', Contact_email = None,
          Contact_phone = Some ''555'', Contact_address = None\<rparr>"
  by (simp add: search_contacts_def search_filter_def sort_column_def getattr_Contact_def
      order_by_def offset_limit_def two_contacts_def outerjoin_phone_numbers_def
      lower_like_def lower_def lower_char_def matches_query_spec_def Let_def)

section \<open>Pagination\<close>

lemma mset_order_by [simp]: "mset (order_by col sort_order rows) = mset rows"
  by (cases col) (simp_all add: order_by_def Let_def)

lemma set_order_by [simp]: "set (order_by col sort_order rows) = set rows"
  using mset_order_by [of col sort_order rows] by (metis set_mset_mset)

lemma distinct_order_by [simp]: "distinct (order_by col sort_order rows) = distinct rows"
  using mset_order_by [of col sort_order rows] by (metis mset_eq_imp_distinct_iff)

lemma outerjoin_phone_numbers_match:
  "(\<exists>pa \<in> set (outerjoin_phone_numbers db c).
      lower_like (map_option PhoneNumber_number pa) pattern)
   = (\<exists>r \<in> set (phone_numbers db).
        PhoneNumber_contact_id r = Contact_id c \<and> like pattern (lower (PhoneNumber_number r)))"
proof (cases "filter (\<lambda>r. PhoneNumber_contact_id r = Contact_id c) (phone_numbers db)")
  case Nil
  then have "\<forall>r \<in> set (phone_numbers db). PhoneNumber_contact_id r \<noteq> Contact_id c"
    by (simp add: filter_empty_conv)
  with Nil show ?thesis
    by (auto simp: outerjoin_phone_numbers_def lower_like_def)
next
  case (Cons r rs)
  then have "set (outerjoin_phone_numbers db c) =
      Some ` {r \<in> set (phone_numbers db). PhoneNumber_contact_id r = Contact_id c}"
    by (simp add: outerjoin_phone_numbers_def flip: set_filter)
  then show ?thesis
    by (auto simp: lower_like_def)
qed

lemma outerjoin_phone_numbers_nonempty: "outerjoin_phone_numbers db c \<noteq> []"
  by (simp add: outerjoin_phone_numbers_def split: list.splits)

lemma join_tags_match:
  "(\<exists>tg \<in> set (join_tags db c). P tg)
   = (\<exists>tg \<in> set (tags db). (Contact_id c, Tag_id tg) \<in> set (contact_tag_association db) \<and> P tg)"
  by (auto simp: join_tags_def) 

lemma set_search_filter:
  "set (search_filter db query tag) = {c \<in> set (contacts db). search_matches db query tag c}"
proof -
  have q: "set [c. c \<leftarrow> contacts db, phone_alias \<leftarrow> outerjoin_phone_numbers db c,
                           lower_like (Some (Contact_name c)) pattern
                           \<or> lower_like (Contact_email c) pattern
                           \<or> lower_like (Contact_phone c) pattern
                           \<or> lower_like (map_option PhoneNumber_number phone_alias) pattern]
      = {c \<in> set (contacts db). 
           lower_like (Some (Contact_name c)) pattern
           \<or> lower_like (Contact_email c) pattern
           \<or> lower_like (Contact_phone c) pattern
           \<or> (\<exists>r \<in> set (phone_numbers db).
        PhoneNumber_contact_id r = Contact_id c \<and> like pattern (lower (PhoneNumber_number r)))}"
    for pattern
    using outerjoin_phone_numbers_match [of db _ pattern] outerjoin_phone_numbers_nonempty [of db]
    by (fastforce simp: neq_Nil_conv)
  have t: "set [c. c \<leftarrow> rows, tag_alias \<leftarrow> join_tags db c, lower (Tag_name tag_alias) = lower tg]
      = {c \<in> set rows. tag_matches db tg c}" for rows tg
    using join_tags_match [of db _ "\<lambda>t. lower (Tag_name t) = lower tg"]
    by (auto simp: tag_matches_def list_ex_iff)
  show ?thesis
    by (cases query; cases tag)
      (auto simp: search_filter_def Let_def q t search_matches_def query_matches_def list_ex_iff
        simp del: set_concat)
qed


text \<open>
  Claim C6. For page and page size at least 1 and a sortBy that resolves to a column:
  list returns, of a sequence that holds every contact row once and is ordered on the
  column, the slice that starts at offset (page - 1) * pageSize and has at most
  pageSize elements, and reports the number of contacts as total; search does the same
  with a sequence that holds exactly the matching contacts, each once, and reports the
  number of matching contacts; both report total_pages = ceil (total / page_size).
\<close>

theorem list_and_search_pagination:
  assumes "1 \<le> page" and "1 \<le> page_size"
    and "sort_column inherited sort_by = Column col"
  shows "(\<exists>sorted_contacts.
            mset sorted_contacts = mset (contacts db)
            \<and> ordered_by col sort_order sorted_contacts
            \<and> list_contacts inherited db page page_size sort_by sort_order =
                Inr \<lparr>ContactListResponse_contacts =
                       take (nat page_size) (drop (nat ((page - 1) * page_size)) sorted_contacts),
                     ContactListResponse_total = int (length (contacts db)),
                     ContactListResponse_page = page,
                     ContactListResponse_page_size = page_size,
                     ContactListResponse_total_pages =
                       \<lceil>real (length (contacts db)) / real_of_int page_size\<rceil>\<rparr>)
       \<and> (\<exists>sorted_matches.
            distinct sorted_matches
            \<and> set sorted_matches = {c \<in> set (contacts db). search_matches db query tag c}
            \<and> ordered_by col sort_order sorted_matches
            \<and> main_search_contacts inherited db query tag page page_size sort_by sort_order =
                Inr \<lparr>ContactListResponse_contacts =
                       take (nat page_size) (drop (nat ((page - 1) * page_size)) sorted_matches),
                     ContactListResponse_total =
                       int (card {c \<in> set (contacts db). search_matches db query tag c}),
                     ContactListResponse_page = page,
                     ContactListResponse_page_size = page_size,
                     ContactListResponse_total_pages =
                       \<lceil>real (card {c \<in> set (contacts db). search_matches db query tag c})
                          / real_of_int page_size\<rceil>\<rparr>)"
proof -
  have pages: "(int n + page_size - 1) div page_size = \<lceil>real n / real_of_int page_size\<rceil>" for n
    using total_pages_ceiling [of page_size "int n"] assms(2) by simp
  let ?sorted = "order_by col sort_order (contacts db)"
  have "list_contacts inherited db page page_size sort_by sort_order =
           Inr \<lparr>ContactListResponse_contacts =
                  take (nat page_size) (drop (nat ((page - 1) * page_size)) ?sorted),
                ContactListResponse_total = int (length (contacts db)),
                ContactListResponse_page = page,
                ContactListResponse_page_size = page_size,
                ContactListResponse_total_pages =
                  \<lceil>real (length (contacts db)) / real_of_int page_size\<rceil>\<rparr>"
    using assms
    by (simp add: list_contacts_def get_contacts_def Let_def offset_limit_page pages)
  moreover have "mset ?sorted = mset (contacts db)" by simp
  moreover have "ordered_by col sort_order ?sorted" by (rule ordered_by_order_by)
  ultimately have listed: "\<exists>sorted_contacts.
            mset sorted_contacts = mset (contacts db)
            \<and> ordered_by col sort_order sorted_contacts
            \<and> list_contacts inherited db page page_size sort_by sort_order =
                Inr \<lparr>ContactListResponse_contacts =
                       take (nat page_size) (drop (nat ((page - 1) * page_size)) sorted_contacts),
                     ContactListResponse_total = int (length (contacts db)),
                     ContactListResponse_page = page,
                     ContactListResponse_page_size = page_size,
                     ContactListResponse_total_pages =
                       \<lceil>real (length (contacts db)) / real_of_int page_size\<rceil>\<rparr>"
    by blast
  let ?matching = "{c \<in> set (contacts db). search_matches db query tag c}"
  let ?found = "order_by col sort_order (remdups (search_filter db query tag))"
  have count: "length (remdups (search_filter db query tag)) = card ?matching"
    by (simp add: length_remdups_card_conv set_search_filter)
  have "main_search_contacts inherited db query tag page page_size sort_by sort_order =
           Inr \<lparr>ContactListResponse_contacts =
                  take (nat page_size) (drop (nat ((page - 1) * page_size)) ?found),
                ContactListResponse_total = int (card ?matching),
                ContactListResponse_page = page,
                ContactListResponse_page_size = page_size,
                ContactListResponse_total_pages =
                  \<lceil>real (card ?matching) / real_of_int page_size\<rceil>\<rparr>"
    using assms
    by (simp add: main_search_contacts_def search_contacts_def Let_def offset_limit_page pages
        count)
  moreover have "distinct ?found" by simp
  moreover have "set ?found = ?matching" by (simp add: set_search_filter)
  moreover have "ordered_by col sort_order ?found" by (rule ordered_by_order_by)
  ultimately have searched: "\<exists>sorted_matches.
            distinct sorted_matches
            \<and> set sorted_matches = ?matching
            \<and> ordered_by col sort_order sorted_matches
            \<and> main_search_contacts inherited db query tag page page_size sort_by sort_order =
                Inr \<lparr>ContactListResponse_contacts =
                       take (nat page_size) (drop (nat ((page - 1) * page_size)) sorted_matches),
                     ContactListResponse_total = int (card ?matching),
                     ContactListResponse_page = page,
                     ContactListResponse_page_size = page_size,
                     ContactListResponse_total_pages =
                       \<lceil>real (card ?matching) / real_of_int page_size\<rceil>\<rparr>"
    by blast
  from listed searched show ?thesis by (rule conjI)
qed

lemmas query_eval =
  list_contacts_def main_search_contacts_def get_contacts_def search_contacts_def
  search_filter_def sort_column_def getattr_Contact_def order_by_def offset_limit_def
  outerjoin_phone_numbers_def join_tags_def lower_like_def lower_def lower_char_def Let_def

lemma address_book_page_two:
  "list_contacts [] address_book 2 2 ''name'' ''asc'' =
     Inr \<lparr>ContactListResponse_contacts =
            [\<lparr>Contact_id = 1, Contact_name = ''Zed'', Contact_email = None,
              Contact_phone = None, Contact_address = None\<rparr>],
          ContactListResponse_total = 3,
          ContactListResponse_page = 2,
          ContactListResponse_page_size = 2,
          ContactListResponse_total_pages = 2\<rparr>"
  by (simp add: query_eval address_book_def)

lemma address_book_search_555_friend:
  "main_search_contacts [] address_book (Some ''555'') (Some ''Friend'') 2 1 ''name'' ''asc'' =
     Inr \<lparr>ContactListResponse_contacts =
            [\<lparr>Contact_id = 1, Contact_name = ''Zed'', Contact_email = None,
              Contact_phone = None, Contact_address = None\<rparr>],
          ContactListResponse_total = 2,
          ContactListResponse_page = 2,
          ContactListResponse_page_size = 1,
          ContactListResponse_total_pages = 2\<rparr>"
  by (simp add: query_eval address_book_def)

lemma five_contacts_page_one:
  "list_contacts [] five_contacts 1 2 ''name'' ''asc'' =
       Inr \<lparr>ContactListResponse_contacts =
              [\<lparr>Contact_id = 1, Contact_name = ''Contact 0'', Contact_email = None,
                Contact_phone = None, Contact_address = None\<rparr>,
               \<lparr>Contact_id = 2, Contact_name = ''Contact 1'', Contact_email = None,
                Contact_phone = None, Contact_address = None\<rparr>],
            ContactListResponse_total = 5,
            ContactListResponse_page = 1,
            ContactListResponse_page_size = 2,
            ContactListResponse_total_pages = 3\<rparr>"
  by (simp add: query_eval five_contacts_rows)


theorem list_and_search_pagination_witness:
  "(1::int) \<le> 2 \<and> (1::int) \<le> 1 \<and> sort_column [] ''name'' = Column Column_name
   \<and> list_contacts [] address_book 2 2 ''name'' ''asc'' =
       Inr \<lparr>ContactListResponse_contacts =
              [\<lparr>Contact_id = 1, Contact_name = ''Zed'', Contact_email = None,
                Contact_phone = None, Contact_address = None\<rparr>],
            ContactListResponse_total = 3,
            ContactListResponse_page = 2,
            ContactListResponse_page_size = 2,
            ContactListResponse_total_pages = 2\<rparr>
   \<and> (\<exists>sorted_contacts.
         mset sorted_contacts = mset (contacts address_book)
         \<and> ordered_by Column_name ''asc'' sorted_contacts
         \<and> take 2 (drop 2 sorted_contacts) =
             [\<lparr>Contact_id = 1, Contact_name = ''Zed'', Contact_email = None,
               Contact_phone = None, Contact_address = None\<rparr>])
   \<and> main_search_contacts [] address_book (Some ''555'') (Some ''Friend'') 2 1 ''name'' ''asc'' =
       Inr \<lparr>ContactListResponse_contacts =
              [\<lparr>Contact_id = 1, Contact_name = ''Zed'', Contact_email = None,
                Contact_phone = None, Contact_address = None\<rparr>],
            ContactListResponse_total = 2,
            ContactListResponse_page = 2,
            ContactListResponse_page_size = 1,
            ContactListResponse_total_pages = 2\<rparr>
   \<and> (\<exists>sorted_matches.
         distinct sorted_matches
         \<and> set sorted_matches =
             {c \<in> set (contacts address_book).
                search_matches address_book (Some ''555'') (Some ''Friend'') c}
         \<and> ordered_by Column_name ''asc'' sorted_matches
         \<and> take 1 (drop 1 sorted_matches) =
             [\<lparr>Contact_id = 1, Contact_name = ''Zed'', Contact_email = None,
               Contact_phone = None, Contact_address = None\<rparr>])
   \<and> list_contacts [] five_contacts 1 2 ''name'' ''asc'' =
       Inr \<lparr>ContactListResponse_contacts =
              [\<lparr>Contact_id = 1, Contact_name = ''Contact 0'', Contact_email = None,
                Contact_phone = None, Contact_address = None\<rparr>,
               \<lparr>Contact_id = 2, Contact_name = ''Contact 1'', Contact_email = None,
                Contact_phone = None, Contact_address = None\<rparr>],
            ContactListResponse_total = 5,
            ContactListResponse_page = 1,
            ContactListResponse_page_size = 2,
            ContactListResponse_total_pages = 3\<rparr>"
proof -
  have col: "sort_column [] ''name'' = Column Column_name"
    by (simp add: sort_column_def getattr_Contact_def)
  from list_and_search_pagination
    [of 2 2 "[]" "''name''" Column_name address_book "''asc''", THEN conjunct1] col
  obtain sorted_contacts where
    "mset sorted_contacts = mset (contacts address_book)"
    "ordered_by Column_name ''asc'' sorted_contacts"
    "list_contacts [] address_book 2 2 ''name'' ''asc'' =
       Inr \<lparr>ContactListResponse_contacts =
              take (nat 2) (drop (nat ((2 - 1) * 2)) sorted_contacts),
            ContactListResponse_total = int (length (contacts address_book)),
            ContactListResponse_page = 2,
            ContactListResponse_page_size = 2,
            ContactListResponse_total_pages =
              \<lceil>real (length (contacts address_book)) / real_of_int 2\<rceil>\<rparr>"
    by auto
  then have listed: "\<exists>sorted_contacts.
         mset sorted_contacts = mset (contacts address_book)
         \<and> ordered_by Column_name ''asc'' sorted_contacts
         \<and> take 2 (drop 2 sorted_contacts) =
             [\<lparr>Contact_id = 1, Contact_name = ''Zed'', Contact_email = None,
               Contact_phone = None, Contact_address = None\<rparr>]"
    unfolding address_book_page_two by auto
  from list_and_search_pagination
    [of 2 1 "[]" "''name''" Column_name address_book "''asc''" "Some ''555''" "Some ''Friend''",
      THEN conjunct2] col
  obtain sorted_matches where
    "distinct sorted_matches"
    "set sorted_matches =
       {c \<in> set (contacts address_book).
          search_matches address_book (Some ''555'') (Some ''Friend'') c}"
    "ordered_by Column_name ''asc'' sorted_matches"
    "main_search_contacts [] address_book (Some ''555'') (Some ''Friend'') 2 1 ''name'' ''asc'' =
       Inr \<lparr>ContactListResponse_contacts =
              take (nat 1) (drop (nat ((2 - 1) * 1)) sorted_matches),
            ContactListResponse_total =
              int (card {c \<in> set (contacts address_book).
                search_matches address_book (Some ''555'') (Some ''Friend'') c}),
            ContactListResponse_page = 2,
            ContactListResponse_page_size = 1,
            ContactListResponse_total_pages =
              \<lceil>real (card {c \<in> set (contacts address_book).
                search_matches address_book (Some ''555'') (Some ''Friend'') c})
                / real_of_int 1\<rceil>\<rparr>"
    by auto
  then have searched: "\<exists>sorted_matches.
         distinct sorted_matches
         \<and> set sorted_matches =
             {c \<in> set (contacts address_book).
                search_matches address_book (Some ''555'') (Some ''Friend'') c}
         \<and> ordered_by Column_name ''asc'' sorted_matches
         \<and> take 1 (drop 1 sorted_matches) =
             [\<lparr>Contact_id = 1, Contact_name = ''Zed'', Contact_email = None,
               Contact_phone = None, Contact_address = None\<rparr>]"
    unfolding address_book_search_555_friend by auto
  from col listed searched show ?thesis
    by (simp add: address_book_page_two address_book_search_555_friend five_contacts_page_one)
qed

section \<open>What a successful operation leaves\<close>

lemma fold_max_ge: "(a::int) \<le> fold max ids a"
proof (induction ids arbitrary: a)
  case Nil
  then show ?case by simp
next
  case (Cons x xs)
  have "a \<le> max x a" by simp
  also have "\<dots> \<le> fold max xs (max x a)" by (rule Cons.IH)
  finally show ?case by simp
qed

lemma fold_max_member: "i \<in> set ids \<Longrightarrow> (i::int) \<le> fold max ids a"
proof (induction ids arbitrary: a)
  case Nil
  then show ?case by simp
next
  case (Cons x xs)
  show ?case
  proof (cases "i = x")
    case True
    have "i \<le> max x a" using True by simp
    also have "\<dots> \<le> fold max xs (max x a)" by (rule fold_max_ge)
    finally show ?thesis by simp
  next
    case False
    with Cons.prems have "i \<in> set xs" by simp
    then show ?thesis using Cons.IH by simp
  qed
qed

lemma next_id_greater: "i \<in> set ids \<Longrightarrow> i < next_id ids"
  using fold_max_member [of i ids "hd ids"] by (auto simp: next_id_def)

lemma next_id_from_one: "list_all (\<lambda>i. 1 \<le> i) ids \<Longrightarrow> 1 \<le> next_id ids"
proof (cases ids)
  case Nil
  then show ?thesis by (simp add: next_id_def)
next
  case (Cons i rest)
  assume "list_all (\<lambda>i. 1 \<le> i) ids"
  with Cons have "1 \<le> i" by simp
  moreover have "i < next_id ids" using Cons next_id_greater [of i ids] by simp
  ultimately show ?thesis by simp
qed

lemma insert_phone_numbers_result:
  "insert_phone_numbers contact_id ns table = Inr table' \<Longrightarrow>
     (\<exists>new. table' = table @ new \<and> map PhoneNumber_number new = ns
        \<and> list_all (\<lambda>r. PhoneNumber_contact_id r = contact_id) new)
     \<and> distinct ns \<and> set ns \<inter> PhoneNumber_number ` set table = {}"
proof (induction ns arbitrary: table)
  case Nil
  then show ?case by simp
next
  case (Cons n ns)
  let ?row = "\<lparr>PhoneNumber_id = next_id (map PhoneNumber_id table),
                   PhoneNumber_contact_id = contact_id, PhoneNumber_number = n\<rparr>"
  from Cons.prems have fresh: "n \<notin> PhoneNumber_number ` set table"
    by (simp split: if_splits)
  from Cons.prems fresh
  have rest: "insert_phone_numbers contact_id ns (table @ [?row]) = Inr table'"
    by simp
  from Cons.IH [OF rest] obtain new where new:
    "table' = (table @ [?row]) @ new" "map PhoneNumber_number new = ns"
    "list_all (\<lambda>r. PhoneNumber_contact_id r = contact_id) new"
    and d: "distinct ns" "set ns \<inter> PhoneNumber_number ` set (table @ [?row]) = {}"
    by auto
  from d(2) have apart: "n \<notin> set ns" "set ns \<inter> PhoneNumber_number ` set table = {}"
    by (auto simp: image_Un)
  have "table' = table @ (?row # new) \<and> map PhoneNumber_number (?row # new) = n # ns
      \<and> list_all (\<lambda>r. PhoneNumber_contact_id r = contact_id) (?row # new)"
    using new by simp
  then have "\<exists>new. table' = table @ new \<and> map PhoneNumber_number new = n # ns
        \<and> list_all (\<lambda>r. PhoneNumber_contact_id r = contact_id) new"
    by (rule exI)
  moreover have "distinct (n # ns)" using d(1) apart(1) by simp
  moreover have "set (n # ns) \<inter> PhoneNumber_number ` set table = {}"
    using apart(2) fresh by simp
  ultimately show ?case by simp
qed

lemma insert_addresses_result:
  "insert_addresses contact_id as table = Inr table' \<Longrightarrow>
     \<exists>new. table' = table @ new \<and> list_all (\<lambda>r. Address_contact_id r = contact_id) new"
proof (induction as arbitrary: table)
  case Nil
  then show ?case by simp
next
  case (Cons a as)
  let ?row = "\<lparr>Address_id = next_id (map Address_id table),
                   Address_contact_id = contact_id, Address_address = a\<rparr>"
  from Cons.prems have fresh: "a \<notin> Address_address ` set table"
    by (simp split: if_splits)
  from Cons.prems fresh
  have rest: "insert_addresses contact_id as (table @ [?row]) = Inr table'"
    by simp
  from Cons.IH [OF rest] obtain new where new:
    "table' = (table @ [?row]) @ new"
    "list_all (\<lambda>r. Address_contact_id r = contact_id) new"
    by auto
  have "table' = table @ (?row # new)
      \<and> list_all (\<lambda>r. Address_contact_id r = contact_id) (?row # new)"
    using new by simp
  then show ?case by (rule exI)
qed

lemma create_contact_success:
  assumes "create_contact db contact = Inr (row, db')"
  shows "row = \<lparr>Contact_id = next_id (map Contact_id (contacts db)),
             Contact_name = ContactCreate_name contact,
             Contact_email = ContactCreate_email contact,
             Contact_phone = ContactCreate_phone contact,
             Contact_address = None\<rparr>"
    and "contacts db' = contacts db @ [row]"
    and "insert_phone_numbers (Contact_id row) (or_empty (ContactCreate_phone_numbers contact))
           (phone_numbers db) = Inr (phone_numbers db')"
    and "insert_addresses (Contact_id row) (or_empty (ContactCreate_addresses contact))
           (addresses db) = Inr (addresses db')"
    and "ContactCreate_phone contact = Some p \<Longrightarrow> p \<noteq> [] \<Longrightarrow>
           \<not> check_phone_number_exists db (Some p) None"
    and "n \<in> set (or_empty (ContactCreate_phone_numbers contact)) \<Longrightarrow>
           \<not> check_phone_number_exists db (Some n) None"
  using assms unfolding create_contact_def
  by (auto simp: Let_def find_None_iff split: option.splits sum.splits prod.splits if_splits)

lemma get_contact_Some:
  "get_contact db contact_id = Some c \<Longrightarrow> c \<in> set (contacts db) \<and> Contact_id c = contact_id"
  by (auto simp: get_contact_def find_Some_iff)

lemma update_contact_not_found:
  "get_contact db contact_id = None \<Longrightarrow> update_contact db contact_id u = Inr (None, db)"
  by (simp add: update_contact_def)

lemma update_contact_found:
  assumes found: "get_contact db contact_id = Some c0"
    and result: "update_contact db contact_id u = Inr (res, db')"
  shows "\<exists>row. res = Some row \<and> Contact_id row = contact_id
           \<and> Contact_phone row =
               (case ContactUpdate_phone u of None \<Rightarrow> Contact_phone c0 | Some p \<Rightarrow> Some p)
           \<and> contacts db' =
               map (\<lambda>c. if Contact_id c = contact_id then row else c) (contacts db)"
    and "insert_phone_numbers contact_id (or_empty (ContactUpdate_phone_numbers u))
           (case ContactUpdate_phone_numbers u of
              None \<Rightarrow> phone_numbers db
            | Some ns \<Rightarrow> filter (\<lambda>r. PhoneNumber_contact_id r \<noteq> contact_id) (phone_numbers db))
           = Inr (phone_numbers db')"
    and "insert_addresses contact_id (or_empty (ContactUpdate_addresses u))
           (case ContactUpdate_addresses u of
              None \<Rightarrow> addresses db
            | Some as \<Rightarrow> filter (\<lambda>r. Address_contact_id r \<noteq> contact_id) (addresses db))
           = Inr (addresses db')"
    and "ContactUpdate_phone u = Some p \<Longrightarrow>
           \<not> check_phone_number_exists db (Some p) (Some contact_id)"
    and "ContactUpdate_phone_numbers u = Some ns \<Longrightarrow> n \<in> set ns \<Longrightarrow>
           \<not> check_phone_number_exists db (Some n) (Some contact_id)"
proof -
  let ?scalar = "(case ContactUpdate_phone u of
              None \<Rightarrow> None
            | Some p \<Rightarrow>
                if check_phone_number_exists db (Some p) (Some contact_id) then Some p
                else None)"
  let ?numbers = "(case ContactUpdate_phone_numbers u of
              None \<Rightarrow> None
            | Some ns \<Rightarrow>
                find (\<lambda>n. check_phone_number_exists db (Some n) (Some contact_id)) ns)"
  have scalar: "?scalar = None"
  proof (cases ?scalar)
    case None
    then show ?thesis .
  next
    case (Some p)
    with found have "update_contact db contact_id u = Inl (ValueError (phone_message p))"
      by (simp add: update_contact_def Let_def)
    with result show ?thesis by simp
  qed
  have numbers: "?numbers = None"
  proof (cases ?numbers)
    case None
    then show ?thesis .
  next
    case (Some n)
    with found scalar
    have "update_contact db contact_id u = Inl (ValueError (phone_message n))"
      by (simp add: update_contact_def Let_def)
    with result show ?thesis by simp
  qed
  from scalar show "ContactUpdate_phone u = Some p \<Longrightarrow>
           \<not> check_phone_number_exists db (Some p) (Some contact_id)"
    by (auto split: option.splits if_splits)
  from numbers show "ContactUpdate_phone_numbers u = Some ns \<Longrightarrow> n \<in> set ns \<Longrightarrow>
           \<not> check_phone_number_exists db (Some n) (Some contact_id)"
    by (auto simp: find_None_iff)
  have addrs: "find (\<lambda>a. check_address_exists db (Some a) (Some contact_id)) as = None"
    if supplied: "ContactUpdate_addresses u = Some as" for as
  proof (cases "find (\<lambda>a. check_address_exists db (Some a) (Some contact_id)) as")
    case None
    then show ?thesis .
  next
    case (Some a)
    have "update_contact db contact_id u = Inl (ValueError (address_message a))"
    proof (cases "ContactUpdate_phone_numbers u")
      case None
      with found scalar numbers supplied Some show ?thesis
        by (simp add: update_contact_def Let_def)
    next
      case (Some ns)
      with found scalar numbers supplied \<open>find _ as = Some a\<close> show ?thesis
        by (simp add: update_contact_def Let_def)
    qed
    with result show ?thesis by simp
  qed
  from get_contact_Some [OF found] have id0: "Contact_id c0 = contact_id" by simp
  have "(\<exists>row. res = Some row \<and> Contact_id row = Contact_id c0
           \<and> Contact_phone row =
               (case ContactUpdate_phone u of None \<Rightarrow> Contact_phone c0 | Some p \<Rightarrow> Some p)
           \<and> contacts db' =
               map (\<lambda>c. if Contact_id c = contact_id then row else c) (contacts db))
      \<and> insert_phone_numbers contact_id (or_empty (ContactUpdate_phone_numbers u))
           (case ContactUpdate_phone_numbers u of
              None \<Rightarrow> phone_numbers db
            | Some ns \<Rightarrow> filter (\<lambda>r. PhoneNumber_contact_id r \<noteq> contact_id) (phone_numbers db))
           = Inr (phone_numbers db')
      \<and> insert_addresses contact_id (or_empty (ContactUpdate_addresses u))
           (case ContactUpdate_addresses u of
              None \<Rightarrow> addresses db
            | Some as \<Rightarrow> filter (\<lambda>r. Address_contact_id r \<noteq> contact_id) (addresses db))
           = Inr (addresses db')"
    using result scalar numbers addrs unfolding update_contact_def found
    by (cases "ContactUpdate_phone_numbers u"; cases "ContactUpdate_addresses u";
        cases "ContactUpdate_tags u"; cases "ContactUpdate_phone u";
        cases "ContactUpdate_email u"; cases "ContactUpdate_name u")
      (auto simp: Let_def split: sum.splits prod.splits)
  with id0 have stages: "(\<exists>row. res = Some row \<and> Contact_id row = contact_id
           \<and> Contact_phone row =
               (case ContactUpdate_phone u of None \<Rightarrow> Contact_phone c0 | Some p \<Rightarrow> Some p)
           \<and> contacts db' =
               map (\<lambda>c. if Contact_id c = contact_id then row else c) (contacts db))
      \<and> insert_phone_numbers contact_id (or_empty (ContactUpdate_phone_numbers u))
           (case ContactUpdate_phone_numbers u of
              None \<Rightarrow> phone_numbers db
            | Some ns \<Rightarrow> filter (\<lambda>r. PhoneNumber_contact_id r \<noteq> contact_id) (phone_numbers db))
           = Inr (phone_numbers db')
      \<and> insert_addresses contact_id (or_empty (ContactUpdate_addresses u))
           (case ContactUpdate_addresses u of
              None \<Rightarrow> addresses db
            | Some as \<Rightarrow> filter (\<lambda>r. Address_contact_id r \<noteq> contact_id) (addresses db))
           = Inr (addresses db')"
    by simp
  from stages show "insert_phone_numbers contact_id (or_empty (ContactUpdate_phone_numbers u))
           (case ContactUpdate_phone_numbers u of
              None \<Rightarrow> phone_numbers db
            | Some ns \<Rightarrow> filter (\<lambda>r. PhoneNumber_contact_id r \<noteq> contact_id) (phone_numbers db))
           = Inr (phone_numbers db')"
    by simp
  from stages show "insert_addresses contact_id (or_empty (ContactUpdate_addresses u))
           (case ContactUpdate_addresses u of
              None \<Rightarrow> addresses db
            | Some as \<Rightarrow> filter (\<lambda>r. Address_contact_id r \<noteq> contact_id) (addresses db))
           = Inr (addresses db')"
    by simp
  from stages show "\<exists>row. res = Some row \<and> Contact_id row = contact_id
           \<and> Contact_phone row =
               (case ContactUpdate_phone u of None \<Rightarrow> Contact_phone c0 | Some p \<Rightarrow> Some p)
           \<and> contacts db' =
               map (\<lambda>c. if Contact_id c = contact_id then row else c) (contacts db)"
    by simp
qed

end
